theory Spec2Isabelle
  imports Complex_Main "HOL-Library.Sublist"
begin

section \<open>Conventions\<close>

text \<open>
  The development embeds the catalog crawler and product extractor of
  \<^verbatim>\<open>app/scrapers/base.py\<close> and the cursor codec of \<^verbatim>\<open>app/cache.py\<close>.

  \<^item> A Python \<^verbatim>\<open>str\<close> is a HOL \<open>string\<close>, read as the UTF-8 bytes of the text, so
    \<^verbatim>\<open>str.encode("utf-8")\<close> is the identity on representations. The character classes
    of \<^verbatim>\<open>re\<close> and of \<^verbatim>\<open>str.lower\<close>, \<^verbatim>\<open>str.upper\<close>, \<^verbatim>\<open>str.strip\<close> are the ASCII ones.
  \<^item> The browser and the HTTP client are the environment: a page is the function from
    a selector to the elements it matches, navigation is a function from a URL to a
    page or a failure, an HTTP GET is a function from a URL to a response.
  \<^item> An exception of the source is a value \<open>Inl e\<close> of a sum type.
\<close>

datatype py_error = AttributeError | TypeError | ValueError | NavigationError

section \<open>Text helpers\<close>

definition ascii_lower :: "char \<Rightarrow> char" where
  "ascii_lower c =
     (case map_of (zip ''ABCDEFGHIJKLMNOPQRSTUVWXYZ'' ''abcdefghijklmnopqrstuvwxyz'') c of
        Some d \<Rightarrow> d | None \<Rightarrow> c)"

definition ascii_upper :: "char \<Rightarrow> char" where
  "ascii_upper c =
     (case map_of (zip ''abcdefghijklmnopqrstuvwxyz'' ''ABCDEFGHIJKLMNOPQRSTUVWXYZ'') c of
        Some d \<Rightarrow> d | None \<Rightarrow> c)"

definition lower :: "string \<Rightarrow> string" where
  "lower s = map ascii_lower s"

definition upper :: "string \<Rightarrow> string" where
  "upper s = map ascii_upper s"

text \<open>The whitespace of \<^verbatim>\<open>\s\<close> and of \<^verbatim>\<open>str.strip()\<close>: tab, LF, VT, FF, CR, the four
  separators 0x1C..0x1F and the space.\<close>

definition is_space :: "char \<Rightarrow> bool" where
  "is_space c = (c \<in> set [CHR 0x09, CHR 0x0A, CHR 0x0B, CHR 0x0C, CHR 0x0D,
                           CHR 0x1C, CHR 0x1D, CHR 0x1E, CHR 0x1F, CHR 0x20])"

definition is_digit :: "char \<Rightarrow> bool" where
  "is_digit c = (c \<in> set ''0123456789'')"

definition is_alpha :: "char \<Rightarrow> bool" where
  "is_alpha c = (c \<in> set ''abcdefghijklmnopqrstuvwxyzABCDEFGHIJKLMNOPQRSTUVWXYZ'')"

definition strip :: "string \<Rightarrow> string" where
  "strip s = rev (dropWhile is_space (rev (dropWhile is_space s)))"

text \<open>\<^verbatim>\<open>needle in hay\<close> on strings.\<close>

fun str_in :: "string \<Rightarrow> string \<Rightarrow> bool" where
  "str_in needle [] = (needle = [])"
| "str_in needle (c # cs) = (prefix needle (c # cs) \<or> str_in needle cs)"

text \<open>\<^verbatim>\<open>re.sub(r"\s+", " ", text)\<close>; the flag says that the scan is inside a run of
  whitespace, which has already produced its single space.\<close>

fun collapse_ws :: "bool \<Rightarrow> string \<Rightarrow> string" where
  "collapse_ws in_run [] = []"
| "collapse_ws in_run (c # cs) =
     (if is_space c then (if in_run then collapse_ws True cs else CHR 0x20 # collapse_ws True cs)
      else c # collapse_ws False cs)"

definition clean_text :: "string \<Rightarrow> string option" where
  "clean_text text =
     (let cleaned = strip (collapse_ws False text)
      in if cleaned = [] then None else Some cleaned)"

text \<open>Truth value of an \<^verbatim>\<open>Optional[str]\<close>: \<^verbatim>\<open>None\<close> and the empty string are false.\<close>

definition truthy_str :: "string option \<Rightarrow> bool" where
  "truthy_str x = (case x of None \<Rightarrow> False | Some s \<Rightarrow> s \<noteq> [])"



fun join :: "string \<Rightarrow> string list \<Rightarrow> string" where
  "join sep [] = []"
| "join sep [x] = x"
| "join sep (x # y # ys) = x @ sep @ join sep (y # ys)"

text \<open>\<^verbatim>\<open>str(n)\<close> on an integer: the decimal digits, with a minus sign when negative.\<close>

definition digit_char :: "nat \<Rightarrow> char" where
  "digit_char d = char_of (48 + d)"

function str_nat :: "nat \<Rightarrow> string" where
  "str_nat n = (if n < 10 then [digit_char n] else str_nat (n div 10) @ [digit_char (n mod 10)])"
  by pat_completeness auto
termination
  by (relation "measure (\<lambda>n. n)") auto

definition str_int :: "int \<Rightarrow> string" where
  "str_int i = (if i < 0 then CHR ''-'' # str_nat (nat (- i)) else str_nat (nat i))"

section \<open>Description cleaning\<close>

definition DESCRIPTION_BLACKLIST :: "string list" where
  "DESCRIPTION_BLACKLIST =
     [''strictly necessary cookies'', ''delivery time'', ''shipping method'', ''free above'',
      ''cookie'', ''cookies'', ''sort by'', ''prev'', ''next'', ''wishlist'', ''shipping'']"

text \<open>\<^verbatim>\<open>re.split(r"(?<=[.!?])\s+", cleaned)\<close>: a run of whitespace whose first character
  follows a full stop, an exclamation or a question mark separates two parts. The
  arguments are: whether the scan is inside such a separator, the previous character,
  the part read so far (reversed), the rest of the text.\<close>

fun split_sentences :: "bool \<Rightarrow> char option \<Rightarrow> string \<Rightarrow> string \<Rightarrow> string list" where
  "split_sentences skipping prev acc [] = [rev acc]"
| "split_sentences skipping prev acc (c # cs) =
     (if skipping \<and> is_space c then split_sentences True (Some c) acc cs
      else if is_space c \<and> prev \<in> {Some CHR ''.'', Some CHR ''!'', Some CHR ''?''}
           then rev acc # split_sentences True (Some c) [] cs
      else split_sentences False (Some c) (c # acc) cs)"

definition clean_description :: "string option \<Rightarrow> string option" where
  "clean_description text =
     (if \<not> truthy_str text then None
      else case clean_text (the text) of
        None \<Rightarrow> None
      | Some cleaned \<Rightarrow>
          (let parts = split_sentences False None [] cleaned;
               filtered = filter (\<lambda>part. \<not> (\<exists>block \<in> set DESCRIPTION_BLACKLIST.
                                              str_in block (lower part))) parts;
               cleaned' = strip (join '' '' filtered)
           in if cleaned' = [] then None else Some cleaned'))"

section \<open>Pages\<close>

text \<open>An element of the DOM as the scraper reads it: its inner text, its \<^verbatim>\<open>href\<close>
  attribute, and the answer of \<^verbatim>\<open>is_disabled()\<close> (\<open>None\<close> when the call raises). A page
  is \<^verbatim>\<open>page.locator(selector)\<close>: the matches of a selector in document order, so
  \<^verbatim>\<open>locator.count()\<close> is the length and \<^verbatim>\<open>locator.first\<close> the head.\<close>

record element =
  inner_text :: string
  href :: "string option"
  is_disabled :: "bool option"

type_synonym page = "string \<Rightarrow> element list"

record scrape_config =
  name :: string
  base_url :: string
  search_url :: string
  product_link_selectors :: "string list"
  name_selectors :: "string list"
  price_selectors :: "string list"
  size_selectors :: "string list"
  availability_selectors :: "string list"
  description_selectors :: "string list"
  catalog_url :: "string option"
  pagination_selector :: "string option"
  pagination_param :: "string option"
  max_products :: int

fun first_text :: "page \<Rightarrow> string list \<Rightarrow> string option" where
  "first_text page [] = None"
| "first_text page (selector # selectors) =
     (case page selector of
        [] \<Rightarrow> first_text page selectors
      | e # _ \<Rightarrow>
          (case clean_text (inner_text e) of
             Some text \<Rightarrow> Some text
           | None \<Rightarrow> first_text page selectors))"


section \<open>Availability\<close>

definition normalize_availability :: "string \<Rightarrow> string option" where
  "normalize_availability text =
     (let lowered = lower text in
      if str_in ''outofstock'' lowered \<or> str_in ''out of stock'' lowered
         \<or> str_in ''sold out'' lowered then Some ''out_of_stock''
      else if str_in ''instock'' lowered \<or> str_in ''in stock'' lowered
         \<or> str_in ''available'' lowered then Some ''in_stock''
      else if str_in ''waitlist'' lowered then Some ''out_of_stock''
      else None)"

definition ADD_TO_CART_SELECTORS :: "string list" where
  "ADD_TO_CART_SELECTORS =
     [''button:has-text('Add to Cart')'', ''button:has-text('Add to Bag')'',
      ''button:has-text('Add to Basket')'']"

text \<open>The first block of \<^verbatim>\<open>_availability\<close>: the text of the availability selectors.\<close>

definition dom_availability :: "scrape_config \<Rightarrow> page \<Rightarrow> string option" where
  "dom_availability cfg page =
     (case first_text page (availability_selectors cfg) of
        None \<Rightarrow> None
      | Some availability_text \<Rightarrow>
          (case normalize_availability availability_text of
             Some normalized \<Rightarrow> Some normalized
           | None \<Rightarrow>
               if str_in ''low stock'' (lower availability_text) then Some ''in_stock''
               else None))"

text \<open>The loop of \<^verbatim>\<open>_availability\<close> over the add-to-cart buttons: the first selector
  with a match decides; a failing \<^verbatim>\<open>is_disabled()\<close> counts as enabled.\<close>

fun probe_buttons :: "page \<Rightarrow> string list \<Rightarrow> string option" where
  "probe_buttons page [] = None"
| "probe_buttons page (selector # selectors) =
     (case page selector of
        [] \<Rightarrow> probe_buttons page selectors
      | button # _ \<Rightarrow>
          (let disabled = (case is_disabled button of Some d \<Rightarrow> d | None \<Rightarrow> False)
           in Some (if disabled then ''out_of_stock'' else ''in_stock'')))"

definition availability :: "scrape_config \<Rightarrow> page \<Rightarrow> string option" where
  "availability cfg page =
     (case dom_availability cfg page of
        Some a \<Rightarrow> Some a
      | None \<Rightarrow> probe_buttons page ADD_TO_CART_SELECTORS)"

section \<open>Regular expressions\<close>

text \<open>
  The patterns of the module, all compiled with \<^verbatim>\<open>re.IGNORECASE\<close>, use literals, \<^verbatim>\<open>\d\<close>,
  \<^verbatim>\<open>\s\<close>, \<^verbatim>\<open>\b\<close>, sequence, alternation and the greedy \<^verbatim>\<open>?\<close>, \<^verbatim>\<open>*\<close>, \<^verbatim>\<open>+\<close>. A matcher state is
  the character before the position (for \<^verbatim>\<open>\b\<close>) and the text after it. \<open>rxm r st\<close> lists
  the states in which a match of \<open>r\<close> from \<open>st\<close> can end, in the order in which the
  backtracking engine of \<^verbatim>\<open>re\<close> tries them, so the head is the match Python reports.
\<close>

datatype rx = Eps | Chr char | Digit | Space | Bnd | Seq rx rx | Alt rx rx | Opt rx | Star rx

type_synonym rx_state = "char option \<times> string"

definition is_word :: "char option \<Rightarrow> bool" where
  "is_word x = (case x of None \<Rightarrow> False
                | Some c \<Rightarrow> is_alpha c \<or> is_digit c \<or> c = CHR ''_'')"

definition next_char :: "string \<Rightarrow> char option" where
  "next_char s = (case s of [] \<Rightarrow> None | c # _ \<Rightarrow> Some c)"

definition rx_class :: "(char \<Rightarrow> bool) \<Rightarrow> rx_state \<Rightarrow> rx_state list" where
  "rx_class P st = (case snd st of [] \<Rightarrow> [] | x # xs \<Rightarrow> if P x then [(Some x, xs)] else [])"

text \<open>Greedy repetition: more iterations are tried first. An iteration that consumes
  nothing is not repeated.\<close>

fun rx_star :: "nat \<Rightarrow> (rx_state \<Rightarrow> rx_state list) \<Rightarrow> rx_state \<Rightarrow> rx_state list" where
  "rx_star 0 f st = [st]"
| "rx_star (Suc n) f st =
     concat (map (rx_star n f) (filter (\<lambda>st'. length (snd st') < length (snd st)) (f st)))
     @ [st]"

primrec rxm :: "rx \<Rightarrow> rx_state \<Rightarrow> rx_state list" where
  "rxm Eps = (\<lambda>st. [st])"
| "rxm (Chr c) = rx_class (\<lambda>x. ascii_lower x = ascii_lower c)"
| "rxm Digit = rx_class is_digit"
| "rxm Space = rx_class is_space"
| "rxm Bnd = (\<lambda>st. if is_word (fst st) \<noteq> is_word (next_char (snd st)) then [st] else [])"
| "rxm (Seq a b) = (\<lambda>st. concat (map (rxm b) (rxm a st)))"
| "rxm (Alt a b) = (\<lambda>st. rxm a st @ rxm b st)"
| "rxm (Opt a) = (\<lambda>st. rxm a st @ [st])"
| "rxm (Star a) = (\<lambda>st. rx_star (length (snd st)) (rxm a) st)"

definition lit :: "string \<Rightarrow> rx" where
  "lit s = foldr (\<lambda>c r. Seq (Chr c) r) s Eps"

definition seqs :: "rx list \<Rightarrow> rx" where
  "seqs rs = foldr Seq rs Eps"

fun alts :: "rx list \<Rightarrow> rx" where
  "alts [] = Eps"
| "alts [r] = r"
| "alts (r # rs) = Alt r (alts rs)"

text \<open>\<^verbatim>\<open>pattern.findall(text)\<close> for a pattern without groups: the matched texts, left to
  right, without overlap. The patterns below match no empty string; the scan steps over
  a position where a match would be empty.\<close>

function findall_from :: "rx \<Rightarrow> char option \<Rightarrow> string \<Rightarrow> string list" where
  "findall_from r prev [] = []"
| "findall_from r prev (c # cs) =
     (case rxm r (prev, c # cs) of
        [] \<Rightarrow> findall_from r (Some c) cs
      | (prev', rest) # _ \<Rightarrow>
          if length rest < length (c # cs)
          then take (length (c # cs) - length rest) (c # cs) # findall_from r prev' rest
          else findall_from r (Some c) cs)"
  by pat_completeness auto
termination
  by (relation "measure (\<lambda>(r, prev, s). length s)") auto

definition findall :: "rx \<Rightarrow> string \<Rightarrow> string list" where
  "findall r s = findall_from r None s"

text \<open>\<^verbatim>\<open>re.sub(pattern, repl, text)\<close> for a constant replacement.\<close>

function sub_from :: "rx \<Rightarrow> string \<Rightarrow> char option \<Rightarrow> string \<Rightarrow> string" where
  "sub_from r repl prev [] = []"
| "sub_from r repl prev (c # cs) =
     (case rxm r (prev, c # cs) of
        [] \<Rightarrow> c # sub_from r repl (Some c) cs
      | (prev', rest) # _ \<Rightarrow>
          if length rest < length (c # cs)
          then repl @ sub_from r repl prev' rest
          else c # sub_from r repl (Some c) cs)"
  by pat_completeness auto
termination
  by (relation "measure (\<lambda>(r, repl, prev, s). length s)") auto

definition re_sub :: "rx \<Rightarrow> string \<Rightarrow> string \<Rightarrow> string" where
  "re_sub r repl s = sub_from r repl None s"

section \<open>Size tokens\<close>

text \<open>\<^verbatim>\<open>\b(?:XXXS|XXS|XS|S|M|L|XL|XXL|XXXL|ONE SIZE|OS|OSFA|PETITE|REGULAR|TALL)\b\<close>\<close>

definition SIZE_TOKEN_REGEX :: rx where
  "SIZE_TOKEN_REGEX =
     seqs [Bnd,
           alts (map lit [''XXXS'', ''XXS'', ''XS'', ''S'', ''M'', ''L'', ''XL'', ''XXL'',
                          ''XXXL'', ''ONE SIZE'', ''OS'', ''OSFA'', ''PETITE'', ''REGULAR'',
                          ''TALL'']),
           Bnd]"

text \<open>\<^verbatim>\<open>\b(?:UK|US|EU)?\s?\d{1,2}(?:\.\d)?(?:-\d{1,2}(?:\.\d)?)?\b\<close>\<close>

definition SIZE_NUMBER_REGEX :: rx where
  "SIZE_NUMBER_REGEX =
     seqs [Bnd,
           Opt (alts (map lit [''UK'', ''US'', ''EU''])),
           Opt Space,
           Digit, Opt Digit,
           Opt (seqs [Chr CHR ''.'', Digit]),
           Opt (seqs [Chr CHR ''-'', Digit, Opt Digit, Opt (seqs [Chr CHR ''.'', Digit])]),
           Bnd]"

text \<open>\<^verbatim>\<open>\b\d+\s*reviews?\b\<close>\<close>

definition REVIEWS_REGEX :: rx where
  "REVIEWS_REGEX =
     seqs [Bnd, Digit, Star Digit, Star Space, lit ''review'', Opt (Chr CHR ''s''), Bnd]"

text \<open>\<^verbatim>\<open>\b(sort by|prev|next|choose size|find my size|join the waitlist|low stock)\b\<close>\<close>

definition NOISE_REGEX :: rx where
  "NOISE_REGEX =
     seqs [Bnd,
           alts (map lit [''sort by'', ''prev'', ''next'', ''choose size'', ''find my size'',
                          ''join the waitlist'', ''low stock'']),
           Bnd]"

definition digit_val :: "char \<Rightarrow> nat" where
  "digit_val c = of_char c - 48"

definition digits_val :: "string \<Rightarrow> nat" where
  "digits_val s = foldl (\<lambda>n c. 10 * n + digit_val c) 0 s"

text \<open>\<^verbatim>\<open>float(numeric)\<close> on a text of digits and dots, which is all that
  \<^verbatim>\<open>re.sub(r"[^0-9.]", "", token)\<close> leaves: digits with at most one dot and at least one
  digit; anything else raises \<^verbatim>\<open>ValueError\<close> (\<open>None\<close>). The value is the exact decimal;
  for the at most eight characters a size token leaves, the comparison of the binary
  float with 30 agrees with the comparison of the decimal.\<close>

definition py_float :: "string \<Rightarrow> rat option" where
  "py_float s =
     (let whole = takeWhile is_digit s; r = dropWhile is_digit s in
      case r of
        [] \<Rightarrow> if whole = [] then None else Some (of_nat (digits_val whole))
      | d # fpart \<Rightarrow>
          if d = CHR ''.'' \<and> list_all is_digit fpart \<and> (whole \<noteq> [] \<or> fpart \<noteq> [])
          then Some (of_nat (digits_val whole) + of_nat (digits_val fpart) / 10 ^ length fpart)
          else None)"

text \<open>\<^verbatim>\<open>re.sub(r"[^0-9.]", "", token)\<close>\<close>

definition numeric_part :: "string \<Rightarrow> string" where
  "numeric_part token = filter (\<lambda>c. is_digit c \<or> c = CHR ''.'') token"

definition is_reasonable_size_number :: "string \<Rightarrow> bool" where
  "is_reasonable_size_number token =
     (let numeric = numeric_part token in
      if numeric = [] then False
      else case py_float numeric of
             None \<Rightarrow> False
           | Some v \<Rightarrow> v \<le> 30)"

text \<open>The text in which \<^verbatim>\<open>_extract_size_tokens\<close> searches, after the two \<^verbatim>\<open>re.sub\<close> and
  the replacement of the slashes.\<close>

definition size_text :: "string \<Rightarrow> string" where
  "size_text text =
     map (\<lambda>c. if c = CHR ''/'' then CHR 0x20 else c)
       (re_sub NOISE_REGEX '' '' (re_sub REVIEWS_REGEX '' '' text))"

text \<open>\<^verbatim>\<open>token.upper().replace(" ", "")\<close>\<close>

definition normalize_number_token :: "string \<Rightarrow> string" where
  "normalize_number_token token = filter (\<lambda>c. c \<noteq> CHR 0x20) (upper token)"

text \<open>The two loops of \<^verbatim>\<open>_extract_size_tokens\<close>: the size words, then the numeric
  tokens that pass \<^verbatim>\<open>_is_reasonable_size_number\<close>.\<close>

definition size_word_tokens :: "string \<Rightarrow> string list" where
  "size_word_tokens text = map upper (findall SIZE_TOKEN_REGEX (size_text text))"

definition size_number_tokens :: "string \<Rightarrow> string list" where
  "size_number_tokens text =
     filter is_reasonable_size_number
       (map normalize_number_token (findall SIZE_NUMBER_REGEX (size_text text)))"

definition extract_size_tokens :: "string \<Rightarrow> string list" where
  "extract_size_tokens text = size_word_tokens text @ size_number_tokens text"


section \<open>Structured data\<close>

text \<open>A decoded JSON value. A number is read only through its truth value and its
  rendering by \<^verbatim>\<open>str()\<close>; a dictionary is the list of its items.\<close>

datatype json = JNull | JBool bool | JNum int | JStr string | JList "json list"
  | JDict "(string \<times> json) list"

text \<open>Functions of the Python library that the model takes as given: \<^verbatim>\<open>json.loads\<close>
  (\<open>None\<close> for \<^verbatim>\<open>JSONDecodeError\<close>), \<^verbatim>\<open>str()\<close> of a decoded value that is not a string,
  \<^verbatim>\<open>urllib.parse.urljoin\<close>, and the checks of \<^verbatim>\<open>urlsplit\<close> on a network location (the
  brackets of an IPv6 literal, the characters under NFKC normalisation): \<open>netloc_ok\<close> is
  false where \<^verbatim>\<open>urlsplit\<close> raises \<^verbatim>\<open>ValueError\<close>.\<close>

record pylib =
  json_loads :: "string \<Rightarrow> json option"
  str_of :: "json \<Rightarrow> string"
  urljoin :: "string \<Rightarrow> string \<Rightarrow> string"
  netloc_ok :: "string \<Rightarrow> bool"

fun truthy :: "json \<Rightarrow> bool" where
  "truthy JNull = False"
| "truthy (JBool b) = b"
| "truthy (JNum n) = (n \<noteq> 0)"
| "truthy (JStr s) = (s \<noteq> [])"
| "truthy (JList xs) = (xs \<noteq> [])"
| "truthy (JDict kvs) = (kvs \<noteq> [])"

text \<open>\<^verbatim>\<open>d.get(key)\<close> on a decoded dictionary: \<^verbatim>\<open>None\<close> is \<open>JNull\<close>.\<close>

definition jget :: "(string \<times> json) list \<Rightarrow> string \<Rightarrow> json" where
  "jget d k = (case map_of d k of None \<Rightarrow> JNull | Some v \<Rightarrow> v)"

definition py_str :: "pylib \<Rightarrow> json \<Rightarrow> string" where
  "py_str lib v = (case v of JStr s \<Rightarrow> s | _ \<Rightarrow> str_of lib v)"

text \<open>The dictionary that \<^verbatim>\<open>_extract_product_fields\<close> builds: its items in insertion
  order; a value can be \<^verbatim>\<open>None\<close>.\<close>

type_synonym fields = "(string \<times> string option) list"

definition fget :: "fields \<Rightarrow> string \<Rightarrow> string option" where
  "fget d k = (case map_of d k of None \<Rightarrow> None | Some v \<Rightarrow> v)"

text \<open>\<^verbatim>\<open>offers.get("price") or offers.get("priceSpecification", {}).get("price")\<close>: the
  second \<^verbatim>\<open>get\<close> raises \<^verbatim>\<open>AttributeError\<close> on a price specification that is no
  dictionary.\<close>

definition offer_price :: "(string \<times> json) list \<Rightarrow> py_error + json" where
  "offer_price offers =
     (let direct = jget offers ''price'' in
      if truthy direct then Inr direct
      else case map_of offers ''priceSpecification'' of
             None \<Rightarrow> Inr JNull
           | Some (JDict spec) \<Rightarrow> Inr (jget spec ''price'')
           | Some _ \<Rightarrow> Inl AttributeError)"

definition extract_product_fields :: "pylib \<Rightarrow> (string \<times> json) list \<Rightarrow> py_error + fields" where
  "extract_product_fields lib product =
     (let r_name = (case jget product ''name'' of
                      JStr n \<Rightarrow> [(''name'', clean_text n)] | _ \<Rightarrow> []);
          r_description = (case jget product ''description'' of
                      JStr d \<Rightarrow> [(''description'', clean_description (Some d))] | _ \<Rightarrow> []);
          offers0 = jget product ''offers'';
          offers = (case offers0 of JList (first # _) \<Rightarrow> first | _ \<Rightarrow> offers0)
      in case offers of
           JDict offer \<Rightarrow>
             (case offer_price offer of
                Inl e \<Rightarrow> Inl e
              | Inr price \<Rightarrow>
                  (let r_price = (if price \<noteq> JNull then [(''price'', Some (py_str lib price))]
                                  else []);
                       r_availability = (case jget offer ''availability'' of
                          JStr a \<Rightarrow> [(''availability'', normalize_availability a)] | _ \<Rightarrow> [])
                   in Inr (r_name @ r_description @ r_price @ r_availability)))
         | _ \<Rightarrow> Inr (r_name @ r_description))"

lemma size_map_of_json:
  "map_of kvs k = Some v \<Longrightarrow> size (v::json) < Suc (size_list (size_prod (\<lambda>_. 0) size) kvs)"
  by (induction kvs) (auto split: if_splits)

function find_product_json_ld :: "pylib \<Rightarrow> json \<Rightarrow> py_error + fields"
  and find_product_in_items :: "pylib \<Rightarrow> json list \<Rightarrow> py_error + fields" where
  "find_product_json_ld lib (JList items) = find_product_in_items lib items"
| "find_product_json_ld lib (JDict payload) =
     (if map_of payload ''@type'' = Some (JStr ''Product'')
      then extract_product_fields lib payload
      else case map_of payload ''@graph'' of
             Some graph \<Rightarrow> find_product_json_ld lib graph
           | None \<Rightarrow> Inr [])"
| "find_product_json_ld lib JNull = Inr []"
| "find_product_json_ld lib (JBool b) = Inr []"
| "find_product_json_ld lib (JNum n) = Inr []"
| "find_product_json_ld lib (JStr s) = Inr []"
| "find_product_in_items lib [] = Inr []"
| "find_product_in_items lib (item # items) =
     (case find_product_json_ld lib item of
        Inl e \<Rightarrow> Inl e
      | Inr found \<Rightarrow> if found \<noteq> [] then Inr found else find_product_in_items lib items)"
  by pat_completeness auto
termination
  by (relation "measure (\<lambda>x. case x of Inl (lib, j) \<Rightarrow> 2 * size j
                                      | Inr (lib, js) \<Rightarrow> 2 * size_list size js + 1)")
     (auto dest: size_map_of_json)




section \<open>The product page\<close>

record product =
  p_site :: string
  p_name :: string
  p_price :: "string option"
  p_url :: string
  p_sizes :: "string list"
  p_availability :: "string option"
  p_description :: "string option"



text \<open>The defaults of \<^verbatim>\<open>ScrapeConfig\<close> (\<^verbatim>\<open>app/scrapers/config.py\<close>).\<close>

definition ScrapeConfig :: "string \<Rightarrow> string \<Rightarrow> string \<Rightarrow> scrape_config" where
  "ScrapeConfig nm base search =
     \<lparr>name = nm, base_url = base, search_url = search,
      product_link_selectors =
        [''a[href*='/products/']'', ''a[href*='/product/']'', ''a[href*='/p/']'',
         ''a[data-testid*='product']'', ''a[class*='product']''],
      name_selectors =
        [''[data-testid='product-title']'', ''[data-testid*='product-name']'',
         ''h1[itemprop='name']'', ''h1[class*='product']'', ''h1''],
      price_selectors =
        [''[data-testid*='price']'', ''[itemprop='price']'', ''[class*='price']'',
         ''[data-price]''],
      size_selectors =
        [''button[aria-label*='Size']'', ''[data-testid*='size'] button'',
         ''[class*='size'] button'', ''select[name*='size'] option''],
      availability_selectors =
        [''[data-testid*='availability']'', ''[class*='availability']'', ''[class*='stock']''],
      description_selectors =
        [''[data-testid='product-description']'', ''[class*='description']'',
         ''[itemprop='description']''],
      catalog_url = None, pagination_selector = None, pagination_param = None,
      max_products = 75\<rparr>"

section \<open>URLs\<close>

text \<open>
  \<^verbatim>\<open>urllib.parse\<close> as \<^verbatim>\<open>_normalize_product_url\<close> and \<^verbatim>\<open>_with_pagination_param\<close> use it
  (CPython 3.11). Percent-escapes are decoded to the bytes they spell; the model covers
  the URLs whose escapes spell well-formed UTF-8 (elsewhere \<^verbatim>\<open>unquote\<close> substitutes
  U+FFFD).
\<close>

definition hex_val :: "char \<Rightarrow> nat option" where
  "hex_val c = map_of (zip ''0123456789ABCDEFabcdef''
                           [0, 1, 2, 3, 4, 5, 6, 7, 8, 9, 10, 11, 12, 13, 14, 15,
                            10, 11, 12, 13, 14, 15]) c"

definition hex_digit :: "nat \<Rightarrow> char" where
  "hex_digit n = ''0123456789ABCDEF'' ! n"

text \<open>The characters that \<^verbatim>\<open>quote\<close> never escapes.\<close>

definition is_unreserved :: "char \<Rightarrow> bool" where
  "is_unreserved c = (is_alpha c \<or> is_digit c \<or> c \<in> set ''_.-~'')"

definition quote_char :: "char \<Rightarrow> string" where
  "quote_char c =
     (if is_unreserved c then [c]
      else if c = CHR 0x20 then ''+''
      else [CHR ''%'', hex_digit (of_char c div 16), hex_digit (of_char c mod 16)])"

definition quote_plus :: "string \<Rightarrow> string" where
  "quote_plus s = concat (map quote_char s)"

fun unquote :: "string \<Rightarrow> string" where
  "unquote [] = []"
| "unquote (c # cs) =
     (if c = CHR ''%'' then
        (case cs of
           a # b # rest \<Rightarrow>
             (case (hex_val a, hex_val b) of
                (Some x, Some y) \<Rightarrow> char_of (16 * x + y) # unquote rest
              | _ \<Rightarrow> c # unquote cs)
         | _ \<Rightarrow> c # unquote cs)
      else c # unquote cs)"

definition unquote_plus :: "string \<Rightarrow> string" where
  "unquote_plus s = unquote (map (\<lambda>c. if c = CHR ''+'' then CHR 0x20 else c) s)"

text \<open>\<^verbatim>\<open>s.split(sep)\<close> for a separator of one character.\<close>

fun split_on :: "char \<Rightarrow> string \<Rightarrow> string list" where
  "split_on sep [] = [[]]"
| "split_on sep (c # cs) =
     (if c = sep then [] # split_on sep cs
      else case split_on sep cs of
             piece # pieces \<Rightarrow> (c # piece) # pieces
           | [] \<Rightarrow> [[c]])"

text \<open>\<^verbatim>\<open>parse_qsl(qs)\<close> with its defaults: a field without a value is dropped.\<close>

definition parse_field :: "string \<Rightarrow> (string \<times> string) list" where
  "parse_field name_value =
     (let nm = takeWhile (\<lambda>c. c \<noteq> CHR ''='') name_value;
          val = drop 1 (dropWhile (\<lambda>c. c \<noteq> CHR ''='') name_value)
      in if name_value \<noteq> [] \<and> val \<noteq> [] then [(unquote_plus nm, unquote_plus val)] else [])"

definition parse_qsl :: "string \<Rightarrow> (string \<times> string) list" where
  "parse_qsl qs = (if qs = [] then [] else concat (map parse_field (split_on CHR ''&'' qs)))"

text \<open>A \<^verbatim>\<open>dict\<close> from names to lists of values, as the list of its items in insertion
  order.\<close>

type_synonym query_dict = "(string \<times> string list) list"

fun dict_add :: "query_dict \<Rightarrow> string \<Rightarrow> string \<Rightarrow> query_dict" where
  "dict_add [] k v = [(k, [v])]"
| "dict_add ((k', vs) # d) k v =
     (if k' = k then (k', vs @ [v]) # d else (k', vs) # dict_add d k v)"

definition parse_qs :: "string \<Rightarrow> query_dict" where
  "parse_qs qs = foldl (\<lambda>d (k, v). dict_add d k v) [] (parse_qsl qs)"

text \<open>\<^verbatim>\<open>urlencode(query, doseq=True)\<close>\<close>

definition urlencode :: "query_dict \<Rightarrow> string" where
  "urlencode d =
     join ''&'' (concat (map (\<lambda>(k, vs). map (\<lambda>v. quote_plus k @ ''='' @ quote_plus v) vs) d))"

record parsed_url =
  u_scheme :: string
  u_netloc :: string
  u_path :: string
  u_params :: string
  u_query :: string
  u_fragment :: string

definition uses_netloc :: "string list" where
  "uses_netloc = [[], ''ftp'', ''http'', ''gopher'', ''nntp'', ''telnet'', ''imap'', ''wais'',
     ''file'', ''mms'', ''https'', ''shttp'', ''snews'', ''prospero'', ''rtsp'', ''rtsps'',
     ''rtspu'', ''rsync'', ''svn'', ''svn+ssh'', ''sftp'', ''nfs'', ''git'', ''git+ssh'', ''ws'',
     ''wss'']"

definition uses_params :: "string list" where
  "uses_params = [[], ''ftp'', ''hdl'', ''prospero'', ''http'', ''imap'', ''https'', ''shttp'',
     ''rtsp'', ''rtsps'', ''rtspu'', ''sip'', ''sips'', ''mms'', ''sftp'', ''tel'']"

definition is_scheme_char :: "char \<Rightarrow> bool" where
  "is_scheme_char c = (is_alpha c \<or> is_digit c \<or> c \<in> set ''+-.'')"

text \<open>The first lines of \<^verbatim>\<open>urlsplit\<close>: leading C0 control characters and spaces are
  stripped, then tab, CR and LF are removed everywhere.\<close>

definition sanitize_url :: "string \<Rightarrow> string" where
  "sanitize_url url =
     filter (\<lambda>c. c \<notin> {CHR 0x09, CHR 0x0D, CHR 0x0A})
       (dropWhile (\<lambda>c. (of_char c :: nat) \<le> 32) url)"

definition split_scheme :: "string \<Rightarrow> string \<times> string" where
  "split_scheme url =
     (let pre = takeWhile (\<lambda>c. c \<noteq> CHR '':'') url in
      if CHR '':'' \<in> set url \<and> pre \<noteq> [] \<and> is_alpha (hd pre) \<and> list_all is_scheme_char pre
      then (lower pre, drop (Suc (length pre)) url)
      else ([], url))"

definition is_delim :: "char \<Rightarrow> bool" where
  "is_delim c = (c \<in> set ''/?#'')"

text \<open>\<^verbatim>\<open>url.split(sep, 1)\<close> when \<open>sep\<close> occurs, else the text and the empty string.\<close>

definition split_first :: "char \<Rightarrow> string \<Rightarrow> string \<times> string" where
  "split_first sep s = (takeWhile (\<lambda>c. c \<noteq> sep) s, drop 1 (dropWhile (\<lambda>c. c \<noteq> sep) s))"

definition urlsplit :: "pylib \<Rightarrow> string \<Rightarrow> py_error + parsed_url" where
  "urlsplit lib url0 =
     (let (scheme, url1) = split_scheme (sanitize_url url0);
          (netloc, url2) =
            (if take 2 url1 = ''//''
             then (takeWhile (\<lambda>c. \<not> is_delim c) (drop 2 url1),
                   dropWhile (\<lambda>c. \<not> is_delim c) (drop 2 url1))
             else ([], url1));
          (url3, fragment) = split_first CHR ''#'' url2;
          (url4, query) = split_first CHR ''?'' url3
      in if netloc \<noteq> [] \<and> \<not> netloc_ok lib netloc then Inl ValueError
         else Inr \<lparr>u_scheme = scheme, u_netloc = netloc, u_path = url4, u_params = [],
                    u_query = query, u_fragment = fragment\<rparr>)"

text \<open>\<^verbatim>\<open>_splitparams\<close>: the parameters follow the first semicolon of the last path
  segment.\<close>

definition last_segment :: "string \<Rightarrow> string" where
  "last_segment url = rev (takeWhile (\<lambda>c. c \<noteq> CHR ''/'') (rev url))"

definition splitparams :: "string \<Rightarrow> string \<times> string" where
  "splitparams url =
     (let seg = last_segment url; before = take (length url - length seg) url in
      if CHR '';'' \<in> set seg
      then (before @ takeWhile (\<lambda>c. c \<noteq> CHR '';'') seg,
            drop 1 (dropWhile (\<lambda>c. c \<noteq> CHR '';'') seg))
      else (url, []))"

definition urlparse :: "pylib \<Rightarrow> string \<Rightarrow> py_error + parsed_url" where
  "urlparse lib url =
     (case urlsplit lib url of
        Inl e \<Rightarrow> Inl e
      | Inr sp \<Rightarrow>
          if u_scheme sp \<in> set uses_params \<and> CHR '';'' \<in> set (u_path sp)
          then (let (p, params) = splitparams (u_path sp)
                in Inr (sp\<lparr>u_path := p, u_params := params\<rparr>))
          else Inr sp)"

definition urlunsplit :: "string \<Rightarrow> string \<Rightarrow> string \<Rightarrow> string \<Rightarrow> string \<Rightarrow> string" where
  "urlunsplit scheme netloc url query fragment =
     (let url1 = (if netloc \<noteq> [] \<or> (scheme \<noteq> [] \<and> scheme \<in> set uses_netloc)
                     \<or> take 2 url = ''//''
                  then ''//'' @ netloc @ (if url \<noteq> [] \<and> take 1 url \<noteq> ''/'' then ''/'' @ url
                                            else url)
                  else url);
          url2 = (if scheme \<noteq> [] then scheme @ '':'' @ url1 else url1);
          url3 = (if query \<noteq> [] then url2 @ ''?'' @ query else url2)
      in if fragment \<noteq> [] then url3 @ ''#'' @ fragment else url3)"

definition urlunparse :: "parsed_url \<Rightarrow> string" where
  "urlunparse c =
     urlunsplit (u_scheme c) (u_netloc c)
       (if u_params c \<noteq> [] then u_path c @ '';'' @ u_params c else u_path c)
       (u_query c) (u_fragment c)"

definition TRACKING_QUERY_PARAMS :: "string list" where
  "TRACKING_QUERY_PARAMS = [''cid'', ''session'', ''utm_source'', ''utm_medium'', ''utm_campaign'',
     ''utm_term'', ''utm_content'', ''gclid'', ''fbclid'']"

definition is_tracking :: "string \<Rightarrow> bool" where
  "is_tracking key = (key \<in> set TRACKING_QUERY_PARAMS \<or> prefix ''utm_'' key)"

text \<open>The loop of \<^verbatim>\<open>_normalize_product_url\<close> that pops the tracking keys, and the
  query it leaves.\<close>

definition clean_query :: "string \<Rightarrow> string" where
  "clean_query q = urlencode (filter (\<lambda>(key, vs). \<not> is_tracking key) (parse_qs q))"

definition normalize_product_url :: "pylib \<Rightarrow> string \<Rightarrow> py_error + string" where
  "normalize_product_url lib url =
     (case urlparse lib url of
        Inl e \<Rightarrow> Inl e
      | Inr parsed \<Rightarrow> Inr (urlunparse (parsed\<lparr>u_query := clean_query (u_query parsed)\<rparr>)))"

text \<open>\<^verbatim>\<open>query[param] = [str(page)]\<close>\<close>

fun dict_set :: "query_dict \<Rightarrow> string \<Rightarrow> string list \<Rightarrow> query_dict" where
  "dict_set [] k vs = [(k, vs)]"
| "dict_set ((k', vs') # d) k vs =
     (if k' = k then (k', vs) # d else (k', vs') # dict_set d k vs)"

definition with_pagination_param :: "pylib \<Rightarrow> string \<Rightarrow> string \<Rightarrow> int \<Rightarrow> py_error + string" where
  "with_pagination_param lib url param page_no =
     (case urlparse lib url of
        Inl e \<Rightarrow> Inl e
      | Inr parsed \<Rightarrow>
          Inr (urlunparse (parsed\<lparr>u_query :=
                 urlencode (dict_set (parse_qs (u_query parsed)) param [str_int page_no])\<rparr>)))"

section \<open>Catalog pages\<close>

text \<open>A visit of a catalog page: the DOM after \<^verbatim>\<open>page.goto\<close>, and the DOM after each of
  the scrolls that \<^verbatim>\<open>_maybe_scroll_for_more\<close> may perform (their number is the draw of
  \<^verbatim>\<open>random.randint\<close>).\<close>

record page_visit =
  dom :: page
  scrolls :: "page list"

definition is_product_url :: "string \<Rightarrow> bool" where
  "is_product_url url = (\<exists>segment \<in> set [''/product/'', ''/products/'', ''/p/'']. str_in segment url)"

text \<open>The \<^verbatim>\<open>href\<close> attributes that \<^verbatim>\<open>evaluate_all\<close> returns: those that are not empty.\<close>

definition element_hrefs :: "element list \<Rightarrow> string list" where
  "element_hrefs es = filter (\<lambda>h. h \<noteq> []) (List.map_filter href es)"

definition collect_product_urls :: "pylib \<Rightarrow> scrape_config \<Rightarrow> page \<Rightarrow> string list" where
  "collect_product_urls lib cfg page =
     foldl (\<lambda>urls selector.
              foldl (\<lambda>urls' link.
                       (let absolute = urljoin lib (base_url cfg) link
                        in if is_product_url absolute \<and> absolute \<notin> set urls'
                           then urls' @ [absolute] else urls'))
                urls (element_hrefs (page selector)))
       [] (product_link_selectors cfg)"

text \<open>\<^verbatim>\<open>_maybe_scroll_for_more\<close>: the best list of links, and the DOM as the last scroll
  left it.\<close>

fun maybe_scroll_for_more ::
  "pylib \<Rightarrow> scrape_config \<Rightarrow> page list \<Rightarrow> string list \<times> page \<Rightarrow> string list \<times> page" where
  "maybe_scroll_for_more lib cfg [] (best_urls, page) = (best_urls, page)"
| "maybe_scroll_for_more lib cfg (scrolled # later) (best_urls, page) =
     (let fresh_urls = collect_product_urls lib cfg scrolled;
          best_urls' = (if length fresh_urls > length best_urls then fresh_urls else best_urls)
      in if int (length best_urls') \<ge> max_products cfg then (best_urls', scrolled)
         else maybe_scroll_for_more lib cfg later (best_urls', scrolled))"

definition PAGINATION_SELECTORS :: "string list" where
  "PAGINATION_SELECTORS =
     [''a[rel='next']'', ''a[aria-label*='Next']'', ''a:has-text('Next')'',
      ''button:has-text('Next')'']"

definition DEFAULT_PAGINATION_PARAM :: string where
  "DEFAULT_PAGINATION_PARAM = ''page''"

definition pagination_param_or_default :: "scrape_config \<Rightarrow> string" where
  "pagination_param_or_default cfg =
     (if truthy_str (pagination_param cfg) then the (pagination_param cfg)
      else DEFAULT_PAGINATION_PARAM)"

definition next_selectors :: "scrape_config \<Rightarrow> string list" where
  "next_selectors cfg =
     (if truthy_str (pagination_selector cfg) then [the (pagination_selector cfg)] else [])
     @ PAGINATION_SELECTORS"

text \<open>The loop of \<^verbatim>\<open>_find_next_page_url\<close>: the \<^verbatim>\<open>href\<close> of the first match of the first
  selector that has a match with a non-empty \<^verbatim>\<open>href\<close>.\<close>

fun structural_href :: "page \<Rightarrow> string list \<Rightarrow> string option" where
  "structural_href page [] = None"
| "structural_href page (selector # selectors) =
     (if selector = [] then structural_href page selectors
      else case page selector of
             [] \<Rightarrow> structural_href page selectors
           | e # _ \<Rightarrow>
               if truthy_str (href e) then href e else structural_href page selectors)"

text \<open>\<^verbatim>\<open>_find_next_page_url\<close>: the next URL and the fallback URL.\<close>

definition find_next_page_url ::
  "pylib \<Rightarrow> scrape_config \<Rightarrow> page \<Rightarrow> string \<Rightarrow> int
     \<Rightarrow> py_error + (string \<times> string option)" where
  "find_next_page_url lib cfg page current next_page =
     (case structural_href page (next_selectors cfg) of
        Some link \<Rightarrow>
          (case with_pagination_param lib current (pagination_param_or_default cfg) next_page of
             Inl e \<Rightarrow> Inl e
           | Inr fallback_url \<Rightarrow> Inr (urljoin lib (base_url cfg) link, Some fallback_url))
      | None \<Rightarrow>
          (case with_pagination_param lib current (pagination_param_or_default cfg) next_page of
             Inl e \<Rightarrow> Inl e
           | Inr guess \<Rightarrow> Inr (guess, None)))"

section \<open>The generic crawl\<close>

text \<open>The local variables of \<^verbatim>\<open>_crawl_catalog_urls\<close>. The set \<^verbatim>\<open>visited_pages\<close> is kept
  as the list of the pages in the order of their visits; the source tests membership
  only.\<close>

record crawl_state =
  collected :: "string list"
  seen_products :: "string set"
  visited_pages :: "string list"
  current_url :: "string option"
  pending_fallback :: "string option"
  page_index :: int

text \<open>The inner loop over \<^verbatim>\<open>product_urls\<close>: the collected list, the seen set and
  \<^verbatim>\<open>new_count\<close>.\<close>

fun add_urls ::
  "pylib \<Rightarrow> scrape_config \<Rightarrow> string list \<Rightarrow> string list \<times> string set \<times> nat
     \<Rightarrow> py_error + (string list \<times> string set \<times> nat)" where
  "add_urls lib cfg [] acc = Inr acc"
| "add_urls lib cfg (url # urls) (coll, seen, new_count) =
     (case normalize_product_url lib url of
        Inl e \<Rightarrow> Inl e
      | Inr normalized \<Rightarrow>
          if normalized \<notin> seen
          then (if int (length (coll @ [url])) \<ge> max_products cfg
                then Inr (coll @ [url], insert normalized seen, new_count + 1)
                else add_urls lib cfg urls (coll @ [url], insert normalized seen, new_count + 1))
          else add_urls lib cfg urls (coll, seen, new_count))"

text \<open>How an iteration of the \<^verbatim>\<open>while\<close> loop ends: the loop is left, by \<^verbatim>\<open>break\<close>, by its
  condition or by an exception (the state is the one reached), or it goes on.\<close>

datatype step = Stop "py_error option" crawl_state | Continue crawl_state

text \<open>The end of the loop body, after the page is closed: the retry of the pending
  fallback, or the move to the next URL.\<close>

definition next_move ::
  "crawl_state \<Rightarrow> string list \<Rightarrow> nat \<Rightarrow> string \<Rightarrow> string option \<Rightarrow> step" where
  "next_move st product_urls new_count next_url fallback_url =
     (if product_urls = [] \<or> new_count = 0
      then (if truthy_str (pending_fallback st)
               \<and> the (pending_fallback st) \<notin> set (visited_pages st)
            then Continue (st\<lparr>current_url := pending_fallback st,
                              pending_fallback := None,
                              page_index := page_index st + 1\<rparr>)
            else Stop None st)
      else
        (let st' = st\<lparr>pending_fallback :=
                     (if truthy_str fallback_url \<and> next_url \<noteq> []
                         \<and> the fallback_url \<noteq> next_url
                      then fallback_url else None)\<rparr>
         in if next_url = [] \<or> next_url \<in> set (visited_pages st')
            then Stop None st'
            else Continue (st'\<lparr>current_url := Some next_url,
                               page_index := page_index st' + 1\<rparr>)))"

text \<open>The links and the DOM that the loop body reads from a visit.\<close>

definition page_links :: "pylib \<Rightarrow> scrape_config \<Rightarrow> page_visit \<Rightarrow> string list" where
  "page_links lib cfg v =
     fst (maybe_scroll_for_more lib cfg (scrolls v) (collect_product_urls lib cfg (dom v), dom v))"

definition page_after_scroll :: "pylib \<Rightarrow> scrape_config \<Rightarrow> page_visit \<Rightarrow> page" where
  "page_after_scroll lib cfg v =
     snd (maybe_scroll_for_more lib cfg (scrolls v) (collect_product_urls lib cfg (dom v), dom v))"

definition crawl_step ::
  "pylib \<Rightarrow> scrape_config \<Rightarrow> (string \<Rightarrow> page_visit option) \<Rightarrow> crawl_state \<Rightarrow> step" where
  "crawl_step lib cfg visit st =
     (if \<not> (truthy_str (current_url st) \<and> int (length (collected st)) < max_products cfg)
      then Stop None st
      else
        (let current = the (current_url st) in
         if current \<in> set (visited_pages st) then Stop None st
         else
           (let st1 = st\<lparr>visited_pages := visited_pages st @ [current]\<rparr> in
            case visit current of
              None \<Rightarrow> Stop (Some NavigationError) st1
            | Some v \<Rightarrow>
                (let product_urls = page_links lib cfg v;
                     page = page_after_scroll lib cfg v
                 in case add_urls lib cfg product_urls (collected st1, seen_products st1, 0) of
                      Inl e \<Rightarrow> Stop (Some e) st1
                    | Inr (coll, seen, new_count) \<Rightarrow>
                        (let st2 = st1\<lparr>collected := coll, seen_products := seen\<rparr> in
                         case find_next_page_url lib cfg page current (page_index st + 1) of
                           Inl e \<Rightarrow> Stop (Some e) st2
                         | Inr (next_url, fallback_url) \<Rightarrow>
                             next_move st2 product_urls new_count next_url fallback_url)))))"

definition crawl_measure :: "scrape_config \<Rightarrow> crawl_state \<Rightarrow> nat" where
  "crawl_measure cfg st =
     2 * nat (max_products cfg - int (length (collected st)))
     + (if truthy_str (pending_fallback st) then 1 else 0)"

lemma truthy_str_simps: "truthy_str None = False" "truthy_str (Some s) = (s \<noteq> [])"
  by (simp_all add: truthy_str_def)

lemma add_urls_count:
  "add_urls lib cfg urls (c, s, n) = Inr (c', s', n')
     \<Longrightarrow> length c' = length c + (n' - n) \<and> n \<le> n'"
proof (induction urls arbitrary: c s n)
  case Nil
  then show ?case by simp
next
  case (Cons url urls)
  show ?case
  proof (cases "normalize_product_url lib url")
    case (Inl e)
    with Cons.prems show ?thesis by simp
  next
    case (Inr normalized)
    show ?thesis
    proof (cases "normalized \<in> s")
      case True
      with Cons.prems Inr have "add_urls lib cfg urls (c, s, n) = Inr (c', s', n')" by simp
      from Cons.IH [OF this] show ?thesis .
    next
      case False
      show ?thesis
      proof (cases "int (length (c @ [url])) \<ge> max_products cfg")
        case True
        with Cons.prems Inr False show ?thesis by auto
      next
        case more: False
        with Cons.prems Inr False
        have "add_urls lib cfg urls (c @ [url], insert normalized s, n + 1) = Inr (c', s', n')"
          by simp
        from Cons.IH [OF this] show ?thesis by auto
      qed
    qed
  qed
qed

lemma crawl_step_decreases:
  assumes "crawl_step lib cfg visit st = Continue st'"
  shows "crawl_measure cfg st' < crawl_measure cfg st"
  using assms
  unfolding crawl_step_def next_move_def Let_def crawl_measure_def
  by (auto simp: truthy_str_simps split: if_splits option.splits sum.splits prod.splits
           dest!: add_urls_count)

text \<open>The \<^verbatim>\<open>while\<close> loop: the exception that left it, if any, and the state it reached.\<close>

function crawl_loop ::
  "pylib \<Rightarrow> scrape_config \<Rightarrow> (string \<Rightarrow> page_visit option) \<Rightarrow> crawl_state
     \<Rightarrow> py_error option \<times> crawl_state" where
  "crawl_loop lib cfg visit st =
     (case crawl_step lib cfg visit st of
        Stop e st' \<Rightarrow> (e, st')
      | Continue st' \<Rightarrow> crawl_loop lib cfg visit st')"
  by pat_completeness auto
termination
  by (relation "measure (\<lambda>(lib, cfg, visit, st). crawl_measure cfg st)")
     (auto dest: crawl_step_decreases)

definition initial_state :: "string \<Rightarrow> crawl_state" where
  "initial_state start_url =
     \<lparr>collected = [], seen_products = {}, visited_pages = [], current_url = Some start_url,
      pending_fallback = None, page_index = 1\<rparr>"

text \<open>The generic part of \<^verbatim>\<open>_crawl_catalog_urls\<close>, from \<^verbatim>\<open>collected: List[str] = []\<close> to
  \<^verbatim>\<open>return collected\<close>.\<close>

definition crawl_generic ::
  "pylib \<Rightarrow> scrape_config \<Rightarrow> (string \<Rightarrow> page_visit option) \<Rightarrow> string \<Rightarrow> py_error + string list" where
  "crawl_generic lib cfg visit start_url =
     (case crawl_loop lib cfg visit (initial_state start_url) of
        (Some e, st) \<Rightarrow> Inl e
      | (None, st) \<Rightarrow> Inr (collected st))"

section \<open>The Shopify fast path\<close>

text \<open>The answer of \<^verbatim>\<open>context.request.get\<close>: an exception, or a status and the value of
  \<^verbatim>\<open>response.json()\<close> (\<open>None\<close> when it raises).\<close>

datatype response = Transport_error | Response int "json option"

definition SHOPIFY_PRODUCTS_LIMIT :: int where
  "SHOPIFY_PRODUCTS_LIMIT = 250"

definition api_url :: "string \<Rightarrow> int \<Rightarrow> string" where
  "api_url base page_no =
     base @ ''/products.json?limit='' @ str_int SHOPIFY_PRODUCTS_LIMIT @ ''&page='' @ str_int page_no"

text \<open>\<^verbatim>\<open>for product in products\<close> on a true value: the items of a list, the keys of a
  dictionary, the characters of a string; a number or a boolean is not iterable.\<close>

definition iterate :: "json \<Rightarrow> py_error + json list" where
  "iterate v =
     (case v of
        JList xs \<Rightarrow> Inr xs
      | JDict kvs \<Rightarrow> Inr (map (\<lambda>kv. JStr (fst kv)) kvs)
      | JStr s \<Rightarrow> Inr (map (\<lambda>c. JStr [c]) s)
      | _ \<Rightarrow> Inl TypeError)"

text \<open>The loop over the products of one listing.\<close>

fun shopify_add ::
  "pylib \<Rightarrow> scrape_config \<Rightarrow> json list \<Rightarrow> string list \<times> string set
     \<Rightarrow> py_error + (string list \<times> string set)" where
  "shopify_add lib cfg [] acc = Inr acc"
| "shopify_add lib cfg (product # products) (coll, seen) =
     (let handle = (case product of JDict d \<Rightarrow> jget d ''handle'' | _ \<Rightarrow> JNull) in
      if \<not> truthy handle then shopify_add lib cfg products (coll, seen)
      else case normalize_product_url lib
                  (urljoin lib (base_url cfg) (''/products/'' @ py_str lib handle)) of
             Inl e \<Rightarrow> Inl e
           | Inr normalized \<Rightarrow>
               (let (coll', seen') =
                      (if normalized \<notin> seen then (coll @ [normalized], insert normalized seen)
                       else (coll, seen))
                in if int (length coll') \<ge> max_products cfg then Inr (coll', seen')
                   else shopify_add lib cfg products (coll', seen')))"

text \<open>\<^verbatim>\<open>payload.get("products") if isinstance(payload, dict) else None\<close>\<close>

definition listing_products :: "json \<Rightarrow> json" where
  "listing_products payload = (case payload of JDict d \<Rightarrow> jget d ''products'' | _ \<Rightarrow> JNull)"

text \<open>The failures of the fast path, in the words of the specification: a transport
  error, a status of 400 or more, a body that does not decode.\<close>

definition failed_response :: "response \<Rightarrow> bool" where
  "failed_response r =
     (case r of Transport_error \<Rightarrow> True | Response status body \<Rightarrow> status \<ge> 400 \<or> body = None)"

text \<open>An iteration of the \<^verbatim>\<open>while\<close> loop of \<^verbatim>\<open>_crawl_shopify_catalog_urls\<close> on the
  collected list, the seen set and the page index: the function returns (or an exception
  leaves it), or the loop goes on.\<close>

datatype shopify_step = Return "py_error + string list" | Next "string list \<times> string set \<times> int"

definition shopify_step ::
  "pylib \<Rightarrow> scrape_config \<Rightarrow> (string \<Rightarrow> response) \<Rightarrow> string
     \<Rightarrow> string list \<times> string set \<times> int \<Rightarrow> shopify_step" where
  "shopify_step lib cfg get base st =
     (case st of (coll, seen, page_no) \<Rightarrow>
        if \<not> int (length coll) < max_products cfg then Return (Inr coll)
        else case get (api_url base page_no) of
               Transport_error \<Rightarrow> Return (Inr [])
             | Response status body \<Rightarrow>
                 if status \<ge> 400 then Return (Inr [])
                 else case body of
                        None \<Rightarrow> Return (Inr [])
                      | Some payload \<Rightarrow>
                          (let products = listing_products payload
                           in if \<not> truthy products then Return (Inr coll)
                              else case iterate products of
                                     Inl e \<Rightarrow> Return (Inl e)
                                   | Inr items \<Rightarrow>
                                       (case shopify_add lib cfg items (coll, seen) of
                                          Inl e \<Rightarrow> Return (Inl e)
                                        | Inr (coll', seen') \<Rightarrow>
                                            Next (coll', seen', page_no + 1))))"

text \<open>Nothing bounds the number of listings that add no product, so the loop need not
  end: \<open>None\<close> is the run that does not return.\<close>

partial_function (option) shopify_loop ::
  "pylib \<Rightarrow> scrape_config \<Rightarrow> (string \<Rightarrow> response) \<Rightarrow> string
     \<Rightarrow> string list \<times> string set \<times> int \<Rightarrow> (py_error + string list) option" where
  "shopify_loop lib cfg get base st =
     (case shopify_step lib cfg get base st of
        Return r \<Rightarrow> Some r
      | Next st' \<Rightarrow> shopify_loop lib cfg get base st')"

declare shopify_loop.simps [code]

text \<open>\<^verbatim>\<open>path.rstrip("/")\<close>\<close>

definition rstrip_slash :: "string \<Rightarrow> string" where
  "rstrip_slash s = rev (dropWhile (\<lambda>c. c = CHR ''/'') (rev s))"

definition crawl_shopify_catalog_urls ::
  "pylib \<Rightarrow> scrape_config \<Rightarrow> (string \<Rightarrow> response) \<Rightarrow> string
     \<Rightarrow> (py_error + string list) option" where
  "crawl_shopify_catalog_urls lib cfg get start_url =
     (if \<not> str_in ''/collections/'' start_url then Some (Inr [])
      else case urlparse lib start_url of
             Inl e \<Rightarrow> Some (Inl e)
           | Inr parsed \<Rightarrow>
               if rstrip_slash (u_path parsed) = [] then Some (Inr [])
               else shopify_loop lib cfg get
                      (u_scheme parsed @ ''://'' @ u_netloc parsed @ rstrip_slash (u_path parsed))
                      ([], {}, 1))"

section \<open>The catalog crawl\<close>

text \<open>\<^verbatim>\<open>_crawl_catalog_urls\<close>. The result says which strategy returned it.\<close>

datatype strategy = Fast_path | Generic_crawl

definition crawl_catalog_urls ::
  "pylib \<Rightarrow> scrape_config \<Rightarrow> (string \<Rightarrow> response) \<Rightarrow> (string \<Rightarrow> page_visit option) \<Rightarrow> string
     \<Rightarrow> (strategy \<times> (py_error + string list)) option" where
  "crawl_catalog_urls lib cfg get visit start_url =
     (case crawl_shopify_catalog_urls lib cfg get start_url of
        None \<Rightarrow> None
      | Some (Inl e) \<Rightarrow> Some (Fast_path, Inl e)
      | Some (Inr shopify_urls) \<Rightarrow>
          if shopify_urls \<noteq> [] then Some (Fast_path, Inr shopify_urls)
          else Some (Generic_crawl, crawl_generic lib cfg visit start_url))"

section \<open>The states of a crawl\<close>

text \<open>The states in which the generic crawl can be, at the head of its loop or when it
  leaves it, from the start URL; and the states of the fast path at the head of its
  loop.\<close>

inductive crawl_reachable ::
  "pylib \<Rightarrow> scrape_config \<Rightarrow> (string \<Rightarrow> page_visit option) \<Rightarrow> string \<Rightarrow> crawl_state \<Rightarrow> bool"
  for lib cfg visit start_url where
  start: "crawl_reachable lib cfg visit start_url (initial_state start_url)"
| continue: "crawl_reachable lib cfg visit start_url st
     \<Longrightarrow> crawl_step lib cfg visit st = Continue st'
     \<Longrightarrow> crawl_reachable lib cfg visit start_url st'"
| stop: "crawl_reachable lib cfg visit start_url st
     \<Longrightarrow> crawl_step lib cfg visit st = Stop e st'
     \<Longrightarrow> crawl_reachable lib cfg visit start_url st'"

inductive shopify_reachable ::
  "pylib \<Rightarrow> scrape_config \<Rightarrow> (string \<Rightarrow> response) \<Rightarrow> string
     \<Rightarrow> string list \<times> string set \<times> int \<Rightarrow> bool"
  for lib cfg get base where
  first: "shopify_reachable lib cfg get base ([], {}, 1)"
| later: "shopify_reachable lib cfg get base st
     \<Longrightarrow> shopify_step lib cfg get base st = Next st'
     \<Longrightarrow> shopify_reachable lib cfg get base st'"

section \<open>Cursors\<close>

text \<open>
  \<^verbatim>\<open>encode_cursor\<close> and \<^verbatim>\<open>decode_cursor\<close> of \<^verbatim>\<open>app/cache.py\<close>. Bytes are characters; a
  \<^verbatim>\<open>str\<close> is its UTF-8 bytes, so \<^verbatim>\<open>encode("utf-8")\<close> and \<^verbatim>\<open>decode("utf-8")\<close> leave the
  representation as it is (\<^verbatim>\<open>decode\<close> raises on bytes that are no text).
\<close>

definition B64_ALPHABET :: string where
  "B64_ALPHABET = ''ABCDEFGHIJKLMNOPQRSTUVWXYZabcdefghijklmnopqrstuvwxyz0123456789-_''"

definition b64_char :: "nat \<Rightarrow> char" where
  "b64_char n = B64_ALPHABET ! n"

text \<open>\<^verbatim>\<open>base64.urlsafe_b64encode\<close>: three bytes give four characters, the rest is padded.\<close>

fun urlsafe_b64encode :: "string \<Rightarrow> string" where
  "urlsafe_b64encode [] = []"
| "urlsafe_b64encode [a] =
     [b64_char (of_char a div 4), b64_char ((of_char a mod 4) * 16), CHR ''='', CHR ''='']"
| "urlsafe_b64encode [a, b] =
     [b64_char (of_char a div 4), b64_char ((of_char a mod 4) * 16 + of_char b div 16),
      b64_char ((of_char b mod 16) * 4), CHR ''='']"
| "urlsafe_b64encode (a # b # c # rest) =
     [b64_char (of_char a div 4), b64_char ((of_char a mod 4) * 16 + of_char b div 16),
      b64_char ((of_char b mod 16) * 4 + of_char c div 64), b64_char (of_char c mod 64)]
     @ urlsafe_b64encode rest"

text \<open>The value of a character for \<^verbatim>\<open>urlsafe_b64decode\<close>, which translates \<^verbatim>\<open>-\<close> and \<^verbatim>\<open>_\<close>
  to \<^verbatim>\<open>+\<close> and \<^verbatim>\<open>/\<close> and then reads the standard alphabet.\<close>

definition b64_value :: "char \<Rightarrow> nat option" where
  "b64_value c =
     (if c = CHR ''+'' then Some 62 else if c = CHR ''/'' then Some 63
      else map_of (zip B64_ALPHABET [0..<64]) c)"

text \<open>\<^verbatim>\<open>binascii.a2b_base64\<close> without strict mode, on the position in the quad, the bits
  left over, the count of padding characters and the input: a character outside the
  alphabet is skipped, enough padding ends the input, an incomplete quad is an error.\<close>

fun a2b_base64 :: "nat \<Rightarrow> nat \<Rightarrow> nat \<Rightarrow> string \<Rightarrow> py_error + string" where
  "a2b_base64 quad_pos leftchar pads [] = (if quad_pos \<noteq> 0 then Inl ValueError else Inr [])"
| "a2b_base64 quad_pos leftchar pads (c # cs) =
     (if c = CHR ''='' then
        (if quad_pos \<ge> 2 \<and> quad_pos + (pads + 1) \<ge> 4 then Inr []
         else a2b_base64 quad_pos leftchar (if quad_pos \<ge> 2 then pads + 1 else pads) cs)
      else case b64_value c of
        None \<Rightarrow> a2b_base64 quad_pos leftchar pads cs
      | Some v \<Rightarrow>
          if quad_pos = 0 then a2b_base64 1 v 0 cs
          else if quad_pos = 1
          then map_sum id ((#) (char_of (leftchar * 4 + v div 16))) (a2b_base64 2 (v mod 16) 0 cs)
          else if quad_pos = 2
          then map_sum id ((#) (char_of (leftchar * 16 + v div 4))) (a2b_base64 3 (v mod 4) 0 cs)
          else map_sum id ((#) (char_of (leftchar * 64 + v))) (a2b_base64 0 0 0 cs))"

definition urlsafe_b64decode :: "string \<Rightarrow> py_error + string" where
  "urlsafe_b64decode s = a2b_base64 0 0 0 s"

text \<open>\<^verbatim>\<open>int(text)\<close>: surrounding whitespace, a sign, then digits in which single
  underscores may separate digits.\<close>

fun digit_groups :: "bool \<Rightarrow> string \<Rightarrow> bool" where
  "digit_groups after_digit [] = after_digit"
| "digit_groups after_digit (c # cs) =
     (if is_digit c then digit_groups True cs
      else if c = CHR ''_'' \<and> after_digit then (cs \<noteq> [] \<and> is_digit (hd cs) \<and> digit_groups False cs)
      else False)"

definition py_int :: "string \<Rightarrow> py_error + int" where
  "py_int text =
     (let s = strip text;
          negative = (take 1 s = ''-'');
          body = (if take 1 s = ''-'' \<or> take 1 s = ''+'' then drop 1 s else s)
      in if digit_groups False body
         then Inr ((if negative then - 1 else 1) * int (digits_val (filter is_digit body)))
         else Inl ValueError)"

definition encode_cursor :: "string \<Rightarrow> int \<Rightarrow> string" where
  "encode_cursor scan_id offset = urlsafe_b64encode (scan_id @ '':'' @ str_int offset)"

definition decode_cursor :: "string \<Rightarrow> py_error + string \<times> int" where
  "decode_cursor cursor =
     (case urlsafe_b64decode cursor of
        Inl e \<Rightarrow> Inl e
      | Inr raw \<Rightarrow>
          if CHR '':'' \<notin> set raw then Inl ValueError
          else (let (scan_id, offset_text) = split_first CHR '':'' raw in
                case py_int offset_text of
                  Inl e \<Rightarrow> Inl e
                | Inr offset \<Rightarrow> Inr (scan_id, offset)))"

section \<open>Example pages\<close>

definition example_lib :: pylib where
  \<open>example_lib =
     \<lparr>json_loads = (\<lambda>raw.
        if raw = ''{"@type":"Product","name":"Coat","offers":{"availability":"InStock"}}''
        then Some (JDict [(''@type'', JStr ''Product''), (''name'', JStr ''Coat''),
                          (''offers'', JDict [(''availability'', JStr ''InStock'')])])
        else if raw = ''{"@type":"Product","name":"Coat","offers":{"availability":"OutOfStock"}}''
        then Some (JDict [(''@type'', JStr ''Product''), (''name'', JStr ''Coat''),
                          (''offers'', JDict [(''availability'', JStr ''OutOfStock'')])])
        else None),
      str_of = (\<lambda>v. []),
      urljoin = (\<lambda>base link. if prefix ''/'' link then base @ link else link),
      netloc_ok = (\<lambda>netloc. True)\<rparr>\<close>

definition example_config :: scrape_config where
  "example_config =
     ScrapeConfig ''shop'' ''https://shop.test'' ''https://shop.test/search?q={query}''"






section \<open>Example catalogs\<close>

definition link_element :: "string \<Rightarrow> string \<Rightarrow> element" where
  "link_element t link = \<lparr>inner_text = t, href = Some link, is_disabled = Some False\<rparr>"

definition static_visit :: "page \<Rightarrow> page_visit" where
  "static_visit p = \<lparr>dom = p, scrolls = [p, p]\<rparr>"

text \<open>One product link on every page of the examples.\<close>

definition coat_link :: "string \<Rightarrow> element list" where
  "coat_link selector =
     (if selector = ''a[href*='/products/']'' then [link_element ''Red Coat'' ''/products/coat'']
      else [])"

text \<open>A catalog whose first page links to itself as the next page.\<close>

definition self_loop_site :: "string \<Rightarrow> page_visit option" where
  "self_loop_site url =
     (if url = ''https://shop.test/catalog''
      then Some (static_visit (\<lambda>selector.
             if selector = ''a[rel='next']''
             then [link_element ''Next'' ''https://shop.test/catalog'']
             else coat_link selector))
      else None)"

text \<open>A catalog with no next link, and an empty page behind the page parameter.\<close>

definition linkless_site :: "string \<Rightarrow> page_visit option" where
  "linkless_site url =
     (if url = ''https://shop.test/catalog'' then Some (static_visit coat_link)
      else if url = ''https://shop.test/catalog?page=2'' then Some (static_visit (\<lambda>selector. []))
      else None)"

text \<open>A catalog whose second page shows the product of the first and links back to the
  first page.\<close>

definition cycle_site :: "string \<Rightarrow> page_visit option" where
  "cycle_site url =
     (if url = ''https://shop.test/catalog''
      then Some (static_visit (\<lambda>selector.
             if selector = ''a[rel='next']''
             then [link_element ''Next'' ''https://shop.test/catalog-2'']
             else coat_link selector))
      else if url = ''https://shop.test/catalog-2''
      then Some (static_visit (\<lambda>selector.
             if selector = ''a[rel='next']''
             then [link_element ''Next'' ''https://shop.test/catalog'']
             else coat_link selector))
      else if url = ''https://shop.test/catalog?page=2'' then Some (static_visit (\<lambda>selector. []))
      else None)"

definition handle_entry :: "string \<Rightarrow> json" where
  "handle_entry h = JDict [(''id'', JNum 1), (''handle'', JStr h)]"

text \<open>A Shopify listing with three products on its first page and none on the second.\<close>

definition three_product_api :: "string \<Rightarrow> response" where
  "three_product_api url =
     (if url = ''https://shop.test/collections/all/products.json?limit=250&page=1''
      then Response 200 (Some (JDict [(''products'',
             JList [handle_entry ''coat'', handle_entry ''hat'', handle_entry ''scarf''])]))
      else if url = ''https://shop.test/collections/all/products.json?limit=250&page=2''
      then Response 200 (Some (JDict [(''products'', JList [])]))
      else Transport_error)"

text \<open>A Shopify listing whose second page answers 500.\<close>

definition failing_api :: "string \<Rightarrow> response" where
  "failing_api url =
     (if url = ''https://shop.test/collections/all/products.json?limit=250&page=1''
      then Response 200 (Some (JDict [(''products'',
             JList [handle_entry ''coat'', handle_entry ''hat'', handle_entry ''scarf''])]))
      else Response 500 None)"

text \<open>A Shopify-style catalog page with one product and no next link, and an empty page
  behind the page parameter.\<close>

definition collection_site :: "string \<Rightarrow> page_visit option" where
  "collection_site url =
     (if url = ''https://shop.test/collections/all'' then Some (static_visit coat_link)
      else if url = ''https://shop.test/collections/all?page=2''
      then Some (static_visit (\<lambda>selector. []))
      else None)"

definition small_budget_config :: scrape_config where
  "small_budget_config = example_config\<lparr>max_products := 2\<rparr>"

section \<open>Properties of the product page\<close>







lemma structured_availability_normalized:
  assumes "jget product ''offers'' = JDict offer" and "jget offer ''availability'' = JStr a"
    and "extract_product_fields lib product = Inr f"
  shows "fget f ''availability'' = normalize_availability a"
  using assms
  by (auto simp: extract_product_fields_def Let_def fget_def
           split: sum.splits json.splits list.splits if_splits)












section \<open>Properties of the size tokens\<close>







text \<open>A range is read as the number that its digits and dots spell: "UK 10-12" is
  read as 1012 and "7.5-8.5" does not parse; neither is kept.\<close>

lemma range_examples:
  "extract_size_tokens ''UK 10-12'' = [] \<and> extract_size_tokens ''7.5-8.5'' = []
   \<and> extract_size_tokens ''1-2'' = [''1-2'']"
  by code_simp






section \<open>Properties of the crawl\<close>

text \<open>What an iteration does, case by case.\<close>

lemma crawl_step_cases:
  assumes "crawl_step lib cfg visit st = r"
  obtains
    (idle) "r = Stop None st"
  | (failed) e where "r = Stop (Some e) (st\<lparr>visited_pages := visited_pages st @ [the (current_url st)]\<rparr>)"
  | (broken) v coll seen n e where
      "truthy_str (current_url st)" and "int (length (collected st)) < max_products cfg"
      and "the (current_url st) \<notin> set (visited_pages st)"
      and "visit (the (current_url st)) = Some v"
      and "add_urls lib cfg (page_links lib cfg v) (collected st, seen_products st, 0)
             = Inr (coll, seen, n)"
      and "r = Stop (Some e) (st\<lparr>visited_pages := visited_pages st @ [the (current_url st)],
                                 collected := coll, seen_products := seen\<rparr>)"
  | (moved) v coll seen n next_url fallback_url where
      "truthy_str (current_url st)" and "int (length (collected st)) < max_products cfg"
      and "the (current_url st) \<notin> set (visited_pages st)"
      and "visit (the (current_url st)) = Some v"
      and "add_urls lib cfg (page_links lib cfg v) (collected st, seen_products st, 0)
             = Inr (coll, seen, n)"
      and "find_next_page_url lib cfg (page_after_scroll lib cfg v) (the (current_url st))
             (page_index st + 1) = Inr (next_url, fallback_url)"
      and "r = next_move (st\<lparr>visited_pages := visited_pages st @ [the (current_url st)],
                              collected := coll, seen_products := seen\<rparr>)
                 (page_links lib cfg v) n next_url fallback_url"
proof (cases "truthy_str (current_url st) \<and> int (length (collected st)) < max_products cfg
              \<and> the (current_url st) \<notin> set (visited_pages st)")
  case False
  with assms have "r = Stop None st"
    by (auto simp: crawl_step_def Let_def)
  then show ?thesis by (rule idle)
next
  case guards: True
  show ?thesis
  proof (cases "visit (the (current_url st))")
    case None
    with assms guards show ?thesis
      by (intro failed [of NavigationError]) (auto simp: crawl_step_def Let_def)
  next
    case (Some v)
    show ?thesis
    proof (cases "add_urls lib cfg (page_links lib cfg v) (collected st, seen_products st, 0)")
      case (Inl e)
      with assms guards Some show ?thesis
        by (intro failed [of e]) (auto simp: crawl_step_def Let_def)
    next
      case (Inr acc)
      obtain coll seen n where acc: "acc = (coll, seen, n)" by (cases acc) auto
      show ?thesis
      proof (cases "find_next_page_url lib cfg (page_after_scroll lib cfg v)
                      (the (current_url st)) (page_index st + 1)")
        case (Inl e)
        with assms guards Some Inr acc show ?thesis
          by (intro broken [of v coll seen n e]) (auto simp: crawl_step_def Let_def)
      next
        case next_page: (Inr nf)
        obtain next_url fallback_url where nf: "nf = (next_url, fallback_url)" by (cases nf) auto
        with assms guards Some Inr acc next_page show ?thesis
          by (intro moved [of v coll seen n next_url fallback_url])
             (auto simp: crawl_step_def Let_def)
      qed
    qed
  qed
qed

lemma add_urls_budget:
  "int (length c) < max_products cfg \<Longrightarrow> add_urls lib cfg urls (c, s, n) = Inr (c', s', n')
     \<Longrightarrow> int (length c') \<le> max_products cfg"
proof (induction urls arbitrary: c s n)
  case Nil
  then show ?case by simp
next
  case (Cons url urls)
  show ?case
  proof (cases "normalize_product_url lib url")
    case (Inl e)
    with Cons.prems show ?thesis by simp
  next
    case (Inr normalized)
    show ?thesis
    proof (cases "normalized \<in> s")
      case True
      with Cons.prems Inr have "add_urls lib cfg urls (c, s, n) = Inr (c', s', n')" by simp
      from Cons.IH [OF Cons.prems(1) this] show ?thesis .
    next
      case False
      show ?thesis
      proof (cases "int (length (c @ [url])) \<ge> max_products cfg")
        case True
        with Cons.prems Inr False show ?thesis by auto
      next
        case more: False
        with Cons.prems Inr False
        have "add_urls lib cfg urls (c @ [url], insert normalized s, n + 1) = Inr (c', s', n')"
          by simp
        moreover from more have "int (length (c @ [url])) < max_products cfg" by simp
        ultimately show ?thesis using Cons.IH by blast
      qed
    qed
  qed
qed

lemma shopify_add_budget:
  "int (length c) < max_products cfg \<Longrightarrow> shopify_add lib cfg items (c, s) = Inr (c', s')
     \<Longrightarrow> int (length c') \<le> max_products cfg"
proof (induction items arbitrary: c s)
  case Nil
  then show ?case by simp
next
  case (Cons item items)
  define handle where "handle = (case item of JDict d \<Rightarrow> jget d ''handle'' | _ \<Rightarrow> JNull)"
  show ?case
  proof (cases "truthy handle")
    case False
    with Cons.prems have "shopify_add lib cfg items (c, s) = Inr (c', s')"
      by (simp add: handle_def)
    from Cons.IH [OF Cons.prems(1) this] show ?thesis .
  next
    case True
    show ?thesis
    proof (cases "normalize_product_url lib
                  (urljoin lib (base_url cfg) (''/products/'' @ py_str lib handle))")
      case (Inl e)
      with Cons.prems True show ?thesis by (simp add: handle_def)
    next
      case (Inr normalized)
      define coll where "coll = (if normalized \<notin> s then c @ [normalized] else c)"
      define seen where "seen = (if normalized \<notin> s then insert normalized s else s)"
      have len: "int (length coll) \<le> max_products cfg"
        using Cons.prems(1) by (simp add: coll_def)
      show ?thesis
      proof (cases "int (length coll) \<ge> max_products cfg")
        case full: True
        with Cons.prems True Inr have "c' = coll"
          by (auto simp: handle_def coll_def seen_def split: if_splits)
        with len show ?thesis by simp
      next
        case more: False
        with Cons.prems True Inr have "shopify_add lib cfg items (coll, seen) = Inr (c', s')"
          by (auto simp: handle_def coll_def seen_def split: if_splits)
        moreover from more have "int (length coll) < max_products cfg" by simp
        ultimately show ?thesis using Cons.IH by blast
      qed
    qed
  qed
qed

lemma next_move_keeps:
  assumes "next_move st product_urls n next_url fallback_url = r"
    and "r = Stop e st' \<or> r = Continue st'"
  shows "collected st' = collected st \<and> seen_products st' = seen_products st
         \<and> visited_pages st' = visited_pages st"
  using assms by (auto simp: next_move_def Let_def split: if_splits)

lemma next_move_fresh:
  assumes "next_move st product_urls n next_url fallback_url = Continue st'"
  shows "truthy_str (current_url st') \<and> the (current_url st') \<notin> set (visited_pages st')"
  using assms by (auto simp: next_move_def Let_def truthy_str_simps split: if_splits)

lemma crawl_step_budget:
  assumes "crawl_step lib cfg visit st = r" and "r = Stop e st' \<or> r = Continue st'"
    and "int (length (collected st)) \<le> max_products cfg"
  shows "int (length (collected st')) \<le> max_products cfg"
  using assms(1)
proof (cases rule: crawl_step_cases)
  case idle
  with assms show ?thesis by auto
next
  case (failed e')
  with assms show ?thesis by auto
next
  case (broken v coll seen n e')
  from add_urls_budget [OF broken(2) broken(5)] broken(6) assms(2) show ?thesis by auto
next
  case (moved v coll seen n next_url fallback_url)
  from next_move_keeps [OF moved(7) [symmetric] assms(2)]
    add_urls_budget [OF moved(2) moved(5)]
  show ?thesis by simp
qed

lemma crawl_reachable_budget:
  "crawl_reachable lib cfg visit start_url st \<Longrightarrow> 0 \<le> max_products cfg
     \<Longrightarrow> int (length (collected st)) \<le> max_products cfg"
proof (induction rule: crawl_reachable.induct)
  case start
  then show ?case by (simp add: initial_state_def)
next
  case (continue st st')
  then show ?case using crawl_step_budget [of lib cfg visit st "Continue st'" _ st'] by simp
next
  case (stop st e st')
  then show ?case using crawl_step_budget [of lib cfg visit st "Stop e st'" e st'] by simp
qed

lemma crawl_loop_reachable:
  "crawl_reachable lib cfg visit start_url st
     \<Longrightarrow> crawl_reachable lib cfg visit start_url (snd (crawl_loop lib cfg visit st))"
proof (induction lib cfg visit st rule: crawl_loop.induct)
  case (1 lib cfg visit st)
  show ?case
  proof (cases "crawl_step lib cfg visit st")
    case (Stop e st')
    then show ?thesis using "1.prems" by (auto intro: crawl_reachable.stop)
  next
    case (Continue st')
    then show ?thesis using 1 by (auto intro: crawl_reachable.continue)
  qed
qed

lemma crawl_generic_reachable:
  "crawl_generic lib cfg visit start_url = Inr urls
     \<Longrightarrow> \<exists>st. crawl_reachable lib cfg visit start_url st \<and> collected st = urls"
proof -
  assume r: "crawl_generic lib cfg visit start_url = Inr urls"
  have "crawl_reachable lib cfg visit start_url
          (snd (crawl_loop lib cfg visit (initial_state start_url)))"
    by (rule crawl_loop_reachable) (rule crawl_reachable.start)
  moreover from r have "collected (snd (crawl_loop lib cfg visit (initial_state start_url))) = urls"
    by (auto simp: crawl_generic_def split: prod.splits option.splits)
  ultimately show ?thesis by blast
qed

lemma shopify_step_budget:
  "shopify_step lib cfg get base (c, s, i) = Next (c', s', i')
     \<Longrightarrow> int (length c') \<le> max_products cfg"
  unfolding shopify_step_def Let_def
  by (auto split: if_splits response.splits option.splits sum.splits prod.splits
           dest: shopify_add_budget)

lemma shopify_reachable_budget:
  "shopify_reachable lib cfg get base st \<Longrightarrow> 0 \<le> max_products cfg
     \<Longrightarrow> int (length (fst st)) \<le> max_products cfg"
  by (induction rule: shopify_reachable.induct) (auto dest: shopify_step_budget)

lemma shopify_loop_returns:
  assumes "shopify_loop lib cfg get base st = Some r"
  shows "shopify_reachable lib cfg get base st
    \<Longrightarrow> \<exists>st'. shopify_reachable lib cfg get base st'
               \<and> shopify_step lib cfg get base st' = Return r"
  using assms
proof (induction lib cfg get base st r rule: shopify_loop.raw_induct [rotated 1, consumes 1])
  case (1 loop lib cfg get base st r)
  show ?case
  proof (cases "shopify_step lib cfg get base st")
    case (Return r')
    with "1.hyps" have "r' = r" by simp
    with Return "1.prems" show ?thesis by blast
  next
    case (Next st')
    with "1.hyps" have a: "loop lib cfg get base st' = Some r" by simp
    from "1.prems" Next have c: "shopify_reachable lib cfg get base st'"
      by (rule shopify_reachable.later)
    from a c show ?thesis by (rule "1.IH")
  qed
qed

lemma shopify_return_cases:
  "shopify_step lib cfg get base st = Return (Inr urls) \<Longrightarrow> urls = [] \<or> urls = fst st"
  unfolding shopify_step_def Let_def
  by (auto split: if_splits response.splits option.splits sum.splits prod.splits)

lemma crawl_shopify_returns:
  assumes "crawl_shopify_catalog_urls lib cfg get start_url = Some (Inr urls)"
  shows "urls = [] \<or> (\<exists>base st. shopify_reachable lib cfg get base st \<and> fst st = urls)"
proof (cases "urls = []")
  case True
  then show ?thesis by simp
next
  case False
  with assms obtain base where "shopify_loop lib cfg get base ([], {}, 1) = Some (Inr urls)"
    by (auto simp: crawl_shopify_catalog_urls_def split: if_splits sum.splits)
  from shopify_loop_returns [OF this shopify_reachable.first]
  obtain st where "shopify_reachable lib cfg get base st"
    and "shopify_step lib cfg get base st = Return (Inr urls)" by blast
  with False shopify_return_cases show ?thesis by blast
qed

lemma fast_path_example:
  "crawl_catalog_urls example_lib small_budget_config three_product_api cycle_site
       ''https://shop.test/collections/all''
     = Some (Fast_path, Inr [''https://shop.test/products/coat'',
                             ''https://shop.test/products/hat''])"
  by code_simp

text \<open>
  Claim C4. For a target whose budget is not negative, the collected list never exceeds
  \<open>max_products\<close>: in every state of the generic crawl and of the fast path, at the head
  of each iteration and when the loop is left, and in the list that either strategy and
  \<^verbatim>\<open>_crawl_catalog_urls\<close> return. The default budget is 75.
\<close>

theorem budget_invariant:
  assumes "0 \<le> max_products cfg"
  shows "(crawl_reachable lib cfg visit start_url st
            \<longrightarrow> int (length (collected st)) \<le> max_products cfg)
       \<and> (crawl_generic lib cfg visit start_url = Inr urls
            \<longrightarrow> int (length urls) \<le> max_products cfg)
       \<and> (shopify_reachable lib cfg get base sst
            \<longrightarrow> int (length (fst sst)) \<le> max_products cfg)
       \<and> (crawl_shopify_catalog_urls lib cfg get start_url = Some (Inr urls')
            \<longrightarrow> int (length urls') \<le> max_products cfg)
       \<and> (crawl_catalog_urls lib cfg get visit start_url = Some (tag, Inr urls'')
            \<longrightarrow> int (length urls'') \<le> max_products cfg)
       \<and> max_products (ScrapeConfig nm base' search) = 75"
proof -
  have generic: "int (length us) \<le> max_products cfg"
    if "crawl_generic lib cfg visit start_url = Inr us" for us
    using crawl_generic_reachable [OF that] crawl_reachable_budget assms by blast
  have fast: "int (length us) \<le> max_products cfg"
    if "crawl_shopify_catalog_urls lib cfg get start_url = Some (Inr us)" for us
    using crawl_shopify_returns [OF that] shopify_reachable_budget assms by auto
  have "int (length urls'') \<le> max_products cfg"
    if "crawl_catalog_urls lib cfg get visit start_url = Some (tag, Inr urls'')"
    using that generic fast
    by (auto simp: crawl_catalog_urls_def split: option.splits sum.splits if_splits)
  with generic fast crawl_reachable_budget shopify_reachable_budget assms
  show ?thesis by (auto simp: ScrapeConfig_def)
qed

theorem budget_invariant_witness:
  "0 \<le> max_products small_budget_config
   \<and> crawl_catalog_urls example_lib small_budget_config three_product_api cycle_site
         ''https://shop.test/collections/all''
       = Some (Fast_path, Inr [''https://shop.test/products/coat'',
                               ''https://shop.test/products/hat''])
   \<and> int (length [''https://shop.test/products/coat'', ''https://shop.test/products/hat''])
       \<le> max_products small_budget_config"
proof -
  have b: "0 \<le> max_products small_budget_config"
    by (simp add: small_budget_config_def)
  show ?thesis
    using budget_invariant [OF b, of example_lib cycle_site "''https://shop.test/collections/all''"
        _ _ three_product_api _ _ _ Fast_path
        "[''https://shop.test/products/coat'', ''https://shop.test/products/hat'']"]
      b fast_path_example
    by simp
qed

lemma crawl_step_visited:
  assumes "crawl_step lib cfg visit st = r" and "r = Stop e st' \<or> r = Continue st'"
  shows "visited_pages st' = visited_pages st
         \<or> (the (current_url st) \<notin> set (visited_pages st)
             \<and> visited_pages st' = visited_pages st @ [the (current_url st)])"
  using assms(1)
proof (cases rule: crawl_step_cases)
  case idle
  with assms show ?thesis by auto
next
  case (failed e')
  with assms show ?thesis
    by (auto simp: crawl_step_def Let_def split: if_splits)
next
  case (broken v coll seen n e')
  with assms(2) show ?thesis by auto
next
  case (moved v coll seen n next_url fallback_url)
  from next_move_keeps [OF moved(7) [symmetric] assms(2)] moved(3) show ?thesis by simp
qed

lemma crawl_step_distinct:
  assumes "crawl_step lib cfg visit st = r" and "r = Stop e st' \<or> r = Continue st'"
    and "distinct (visited_pages st)"
  shows "distinct (visited_pages st')"
  using crawl_step_visited [OF assms(1,2)] assms(3) by auto

lemma crawl_reachable_distinct:
  "crawl_reachable lib cfg visit start_url st \<Longrightarrow> distinct (visited_pages st)"
proof (induction rule: crawl_reachable.induct)
  case start
  then show ?case by (simp add: initial_state_def)
next
  case (continue st st')
  then show ?case using crawl_step_distinct [of lib cfg visit st "Continue st'" _ st'] by simp
next
  case (stop st e st')
  then show ?case using crawl_step_distinct [of lib cfg visit st "Stop e st'" e st'] by simp
qed

lemma crawl_step_fresh:
  assumes "crawl_step lib cfg visit st = Continue st'"
  shows "truthy_str (current_url st') \<and> the (current_url st') \<notin> set (visited_pages st')"
  using assms
proof (cases rule: crawl_step_cases)
  case (moved v coll seen n next_url fallback_url)
  from next_move_fresh [OF moved(7) [symmetric]] show ?thesis .
qed simp_all

lemma crawl_loop_visits:
  "length (visited_pages (snd (crawl_loop lib cfg visit st)))
     \<le> length (visited_pages st) + crawl_measure cfg st + 1"
proof (induction lib cfg visit st rule: crawl_loop.induct)
  case (1 lib cfg visit st)
  show ?case
  proof (cases "crawl_step lib cfg visit st")
    case (Stop e st')
    from crawl_step_visited [OF Stop, of e st']
    have "length (visited_pages st') \<le> length (visited_pages st) + 1" by auto
    with Stop show ?thesis by simp
  next
    case (Continue st')
    from crawl_step_visited [OF Continue, of _ st']
    have "length (visited_pages st') \<le> length (visited_pages st) + 1" by auto
    moreover from crawl_step_decreases [OF Continue]
    have "crawl_measure cfg st' < crawl_measure cfg st" .
    moreover from "1.IH" [OF Continue]
    have "length (visited_pages (snd (crawl_loop lib cfg visit st')))
            \<le> length (visited_pages st') + crawl_measure cfg st' + 1" .
    ultimately show ?thesis using Continue by simp
  qed
qed

lemma next_move_visited_next:
  assumes "product_urls \<noteq> []" and "0 < n" and "next_url \<in> set (visited_pages st)"
  shows "\<exists>st'. next_move st product_urls n next_url fallback_url = Stop None st'"
  using assms by (simp add: next_move_def Let_def)

lemma next_move_retry:
  assumes "product_urls = [] \<or> n = 0" and "truthy_str (pending_fallback st)"
    and "the (pending_fallback st) \<notin> set (visited_pages st)"
  shows "next_move st product_urls n next_url fallback_url
           = Continue (st\<lparr>current_url := pending_fallback st, pending_fallback := None,
                           page_index := page_index st + 1\<rparr>)"
  using assms by (auto simp: next_move_def)

lemma self_loop_trace:
  "visited_pages (snd (crawl_loop example_lib example_config self_loop_site
       (initial_state ''https://shop.test/catalog'')))
     = [''https://shop.test/catalog'']"
  by code_simp

lemma self_loop_result:
  "crawl_generic example_lib example_config self_loop_site ''https://shop.test/catalog''
     = Inr [''https://shop.test/products/coat'']"
  by code_simp

text \<open>
  Claim C5, as the code has it. The generic crawl visits each page URL at most once: the
  list of the visited pages has no repetition in any state of the crawl, and an
  iteration that goes on always goes on to a URL that has not been visited. The crawl
  ends: it is a total function, and it visits at most \<open>2 * max_products + 1\<close> pages. A
  next URL that is already visited stops the crawl at once, with no fallback retry, when
  the page yielded a new product link; when the page yielded no new link and an
  unvisited fallback is pending, the crawl goes on to the fallback, whatever the next
  URL is. A catalog whose first page links to itself stops after that page.
\<close>

theorem cycle_termination:
  "(crawl_reachable lib cfg visit start_url st \<longrightarrow> distinct (visited_pages st))
   \<and> (crawl_step lib cfg visit st = Continue st'
        \<longrightarrow> truthy_str (current_url st')
            \<and> the (current_url st') \<notin> set (visited_pages st'))
   \<and> length (visited_pages (snd (crawl_loop lib cfg visit (initial_state start_url))))
        \<le> 2 * nat (max_products cfg) + 1
   \<and> (product_urls \<noteq> [] \<and> 0 < n \<and> next_url \<in> set (visited_pages st2)
        \<longrightarrow> (\<exists>st3. next_move st2 product_urls n next_url fallback_url = Stop None st3))
   \<and> ((product_urls = [] \<or> n = 0) \<and> truthy_str (pending_fallback st2)
          \<and> the (pending_fallback st2) \<notin> set (visited_pages st2)
        \<longrightarrow> next_move st2 product_urls n next_url fallback_url
              = Continue (st2\<lparr>current_url := pending_fallback st2, pending_fallback := None,
                              page_index := page_index st2 + 1\<rparr>))
   \<and> visited_pages (snd (crawl_loop example_lib example_config self_loop_site
          (initial_state ''https://shop.test/catalog'')))
        = [''https://shop.test/catalog'']"
proof -
  have "length (visited_pages (snd (crawl_loop lib cfg visit (initial_state start_url))))
        \<le> 2 * nat (max_products cfg) + 1"
    using crawl_loop_visits [of lib cfg visit "initial_state start_url"]
    by (simp add: initial_state_def crawl_measure_def truthy_str_simps)
  then show ?thesis
    using crawl_reachable_distinct crawl_step_fresh next_move_visited_next next_move_retry
      self_loop_trace
    by blast
qed

text \<open>On \<open>cycle_site\<close> the second page links back to the first, which is visited, and
  shows no new product; the crawl does not stop there but visits the pending fallback.\<close>

theorem cycle_termination_counterexample:
  "find_next_page_url example_lib example_config
       (page_after_scroll example_lib example_config
          (the (cycle_site ''https://shop.test/catalog-2'')))
       ''https://shop.test/catalog-2'' 3
     = Inr (''https://shop.test/catalog'', Some ''https://shop.test/catalog-2?page=3'')
   \<and> visited_pages (snd (crawl_loop example_lib example_config cycle_site
          (initial_state ''https://shop.test/catalog'')))
       = [''https://shop.test/catalog'', ''https://shop.test/catalog-2'',
          ''https://shop.test/catalog?page=2'']"
  by code_simp

theorem cycle_termination_witness:
  "crawl_reachable example_lib example_config self_loop_site ''https://shop.test/catalog''
     (initial_state ''https://shop.test/catalog'')
   \<and> distinct (visited_pages (initial_state ''https://shop.test/catalog''))
   \<and> length (visited_pages (snd (crawl_loop example_lib example_config self_loop_site
          (initial_state ''https://shop.test/catalog''))))
        \<le> 2 * nat (max_products example_config) + 1"
  using cycle_termination [of example_lib example_config self_loop_site
      "''https://shop.test/catalog''" "initial_state ''https://shop.test/catalog''"]
    crawl_reachable.start [of example_lib example_config self_loop_site
      "''https://shop.test/catalog''"]
  by simp





lemma linkless_trace:
  "visited_pages (snd (crawl_loop example_lib example_config linkless_site
       (initial_state ''https://shop.test/catalog'')))
     = [''https://shop.test/catalog'', ''https://shop.test/catalog?page=2'']"
  by code_simp








lemma shopify_loop_failure:
  assumes "int (length coll) < max_products cfg"
    and "failed_response (get (api_url base page_no))"
  shows "shopify_loop lib cfg get base (coll, seen, page_no) = Some (Inr [])"
proof -
  have "shopify_step lib cfg get base (coll, seen, page_no) = Return (Inr [])"
    using assms
    by (auto simp: shopify_step_def failed_response_def split: response.splits option.splits)
  then show ?thesis by (subst shopify_loop.simps) simp
qed

lemma shopify_loop_empty_first_page:
  assumes "get (api_url base 1) = Response status (Some payload)"
    and "\<not> truthy (listing_products payload)"
  shows "shopify_loop lib cfg get base ([], {}, 1) = Some (Inr [])"
proof -
  have "shopify_step lib cfg get base ([], {}, 1) = Return (Inr [])"
    using assms by (auto simp: shopify_step_def Let_def)
  then show ?thesis by (subst shopify_loop.simps) simp
qed

lemma generic_iff_fast_path_empty:
  assumes "crawl_catalog_urls lib cfg get visit start_url = Some (tag, r)"
  shows "(tag = Generic_crawl) = (crawl_shopify_catalog_urls lib cfg get start_url = Some (Inr []))"
  using assms
  by (auto simp: crawl_catalog_urls_def split: option.splits sum.splits if_splits)

lemma fallback_to_generic:
  assumes "crawl_shopify_catalog_urls lib cfg get start_url = Some (Inr [])"
  shows "crawl_catalog_urls lib cfg get visit start_url
           = Some (Generic_crawl, crawl_generic lib cfg visit start_url)"
  using assms by (simp add: crawl_catalog_urls_def)

lemma failing_api_fallback:
  "crawl_shopify_catalog_urls example_lib example_config failing_api
       ''https://shop.test/collections/all'' = Some (Inr [])
   \<and> crawl_catalog_urls example_lib example_config failing_api collection_site
       ''https://shop.test/collections/all''
     = Some (Generic_crawl, Inr [''https://shop.test/products/coat''])"
  by code_simp

lemma failing_api_second_page:
  "failed_response (failing_api (api_url ''https://shop.test/collections/all'' 2))"
  by code_simp

text \<open>
  Claim C8. From any state of the fast path whose budget is not reached, a transport
  error, a status of 400 or more or a body that does not decode makes the fast path
  return the empty list, whatever it had collected. A first page without products also
  gives the empty list. When the fast path returns the empty list
  \<^verbatim>\<open>_crawl_catalog_urls\<close> returns the result of the generic crawl, and the generic crawl
  runs exactly when the fast path returned the empty list.
\<close>

theorem fast_path_failure_policy:
  "(int (length coll) < max_products cfg \<and> failed_response (get (api_url base page_no))
      \<longrightarrow> shopify_loop lib cfg get base (coll, seen, page_no) = Some (Inr []))
   \<and> (get (api_url base 1) = Response status (Some payload)
        \<and> \<not> truthy (listing_products payload)
      \<longrightarrow> shopify_loop lib cfg get base ([], {}, 1) = Some (Inr []))
   \<and> (crawl_shopify_catalog_urls lib cfg get start_url = Some (Inr [])
      \<longrightarrow> crawl_catalog_urls lib cfg get visit start_url
           = Some (Generic_crawl, crawl_generic lib cfg visit start_url))
   \<and> (crawl_catalog_urls lib cfg get visit start_url = Some (tag, r)
      \<longrightarrow> (tag = Generic_crawl)
           = (crawl_shopify_catalog_urls lib cfg get start_url = Some (Inr [])))"
proof (intro conjI impI)
  assume "int (length coll) < max_products cfg \<and> failed_response (get (api_url base page_no))"
  then show "shopify_loop lib cfg get base (coll, seen, page_no) = Some (Inr [])"
    by (simp add: shopify_loop_failure)
next
  assume "get (api_url base 1) = Response status (Some payload)
          \<and> \<not> truthy (listing_products payload)"
  then show "shopify_loop lib cfg get base ([], {}, 1) = Some (Inr [])"
    using shopify_loop_empty_first_page by blast
next
  assume "crawl_shopify_catalog_urls lib cfg get start_url = Some (Inr [])"
  then show "crawl_catalog_urls lib cfg get visit start_url
           = Some (Generic_crawl, crawl_generic lib cfg visit start_url)"
    by (rule fallback_to_generic)
next
  assume "crawl_catalog_urls lib cfg get visit start_url = Some (tag, r)"
  then show "(tag = Generic_crawl)
           = (crawl_shopify_catalog_urls lib cfg get start_url = Some (Inr []))"
    by (rule generic_iff_fast_path_empty)
qed

theorem fast_path_failure_policy_witness:
  "int (length [''https://shop.test/products/coat'', ''https://shop.test/products/hat'',
                ''https://shop.test/products/scarf'']) < max_products example_config
   \<and> failed_response (failing_api (api_url ''https://shop.test/collections/all'' 2))
   \<and> shopify_loop example_lib example_config failing_api ''https://shop.test/collections/all''
        ([''https://shop.test/products/coat'', ''https://shop.test/products/hat'',
          ''https://shop.test/products/scarf''], {}, 2) = Some (Inr [])
   \<and> crawl_shopify_catalog_urls example_lib example_config failing_api
        ''https://shop.test/collections/all'' = Some (Inr [])
   \<and> crawl_catalog_urls example_lib example_config failing_api collection_site
        ''https://shop.test/collections/all''
       = Some (Generic_crawl, Inr [''https://shop.test/products/coat''])"
proof -
  have b: "int (length [''https://shop.test/products/coat'', ''https://shop.test/products/hat'',
                ''https://shop.test/products/scarf'']) < max_products example_config"
    by (simp add: example_config_def ScrapeConfig_def)
  show ?thesis
    using fast_path_failure_policy [of
        "[''https://shop.test/products/coat'', ''https://shop.test/products/hat'',
          ''https://shop.test/products/scarf'']"
        example_config failing_api "''https://shop.test/collections/all''" 2 example_lib "{}"]
      b failing_api_second_page failing_api_fallback
    by simp
qed

end
